theory Spec2Isabelle
  imports Main "HOL-Library.Word" "HOL-Library.Sublist"
begin

section \<open>JavaScript strings\<close>

text \<open>
  A JavaScript string is a sequence of UTF-16 code units; \<open>substring\<close>, \<open>includes\<close>,
  \<open>replace\<close> and \<open>trim\<close> all work on code units. String literals of the source are
  written \<open>u16 ''...''\<close> for their ASCII stretches, with the code units of the other
  characters spelled out.
\<close>

type_synonym jsstring = "16 word list"

definition u16 :: "string \<Rightarrow> jsstring" where
  "u16 s = map (\<lambda>c. of_nat (of_char c)) s"

definition LF :: "16 word" where
  "LF = 0x0A"

text \<open>\<open>s.includes(p)\<close>: does \<open>p\<close> occur in \<open>s\<close> as a contiguous run of code units.\<close>

fun str_includes :: "jsstring \<Rightarrow> jsstring \<Rightarrow> bool" where
  "str_includes [] p = (p = [])"
| "str_includes (c # cs) p = (prefix p (c # cs) \<or> str_includes cs p)"

text \<open>\<open>s.substring(0, n)\<close>: the first \<open>n\<close> code units, the whole string when it is shorter.\<close>

definition substring0 :: "jsstring \<Rightarrow> nat \<Rightarrow> jsstring" where
  "substring0 s n = take n s"

subsection \<open>Decimal rendering of numbers\<close>

definition digit :: "nat \<Rightarrow> 16 word" where
  "digit d = of_nat (48 + d)"

text \<open>
  Conversion of a non-negative integer Number to a string: its decimal digits, no leading zero.
\<close>

fun showNat :: "nat \<Rightarrow> jsstring" where
  "showNat n = (if n < 10 then [digit n] else showNat (n div 10) @ [digit (n mod 10)])"

declare showNat.simps [simp del]

text \<open>
  \<open>(size / 1024 / 1024).toFixed(2)\<close> for an integer \<open>size\<close>. Dividing by a power of two is
  exact in binary floating point, so the receiver is exactly \<open>size / 2^20\<close>; \<open>toFixed(2)\<close>
  picks the integer \<open>n\<close> with \<open>n / 100\<close> nearest to it, the larger one on a tie, and prints
  \<open>n\<close> with a decimal point before its last two digits.
\<close>

definition hundredthsOfMiB :: "nat \<Rightarrow> nat" where
  "hundredthsOfMiB bytes = (bytes * 100 + 524288) div 1048576"

definition fixed2 :: "nat \<Rightarrow> jsstring" where
  "fixed2 n = showNat (n div 100) @ u16 ''.'' @ [digit (n mod 100 div 10), digit (n mod 10)]"

definition mib_toFixed2 :: "nat \<Rightarrow> jsstring" where
  "mib_toFixed2 bytes = fixed2 (hundredthsOfMiB bytes)"

text \<open>Reading a decimal numeral back, to say what a rendered number denotes.\<close>

definition digitValue :: "16 word \<Rightarrow> nat" where
  "digitValue c = unat c - 48"

definition readNat :: "jsstring \<Rightarrow> nat" where
  "readNat s = foldl (\<lambda>acc c. acc * 10 + digitValue c) 0 s"

section \<open>Cleaning a model reply before parsing\<close>

text \<open>
  Both parsing sites apply
  \<^verbatim>\<open>text.replace(/```json\n?/g, '').replace(/```\n?/g, '').trim()\<close>.
  A global \<open>replace\<close> with the pattern \<open>pat\n?\<close> scans from the left; at each match of the
  literal \<open>pat\<close> it also consumes one following line feed if there is one, and resumes
  after the match.
\<close>

definition skip_newline :: "jsstring \<Rightarrow> jsstring" where
  "skip_newline s = (case s of [] \<Rightarrow> [] | c # cs \<Rightarrow> if c = LF then cs else c # cs)"

function replace_fence :: "jsstring \<Rightarrow> jsstring \<Rightarrow> jsstring" where
  "replace_fence pat [] = []"
| "replace_fence pat (c # cs) =
     (if pat \<noteq> [] \<and> prefix pat (c # cs)
      then replace_fence pat (skip_newline (drop (length pat) (c # cs)))
      else c # replace_fence pat cs)"
  by pat_completeness auto
termination
proof (relation "measure (\<lambda>(pat, s). length s)")
  show "wf (measure (\<lambda>(pat, s). length s))" by simp
next
  fix pat :: jsstring and c cs
  assume "pat \<noteq> [] \<and> prefix pat (c # cs)"
  then have "0 < length pat" by simp
  then have "length (drop (length pat) (c # cs)) < length (c # cs)" by simp
  moreover have "length (skip_newline s) \<le> length s" for s
    by (simp add: skip_newline_def split: list.split)
  ultimately have "length (skip_newline (drop (length pat) (c # cs))) < length (c # cs)"
    by (rule le_less_trans [rotated])
  then show "((pat, skip_newline (drop (length pat) (c # cs))), (pat, c # cs))
          \<in> measure (\<lambda>(pat, s). length s)"
    by simp
next
  fix pat :: jsstring and c :: "16 word" and cs
  show "((pat, cs), (pat, c # cs)) \<in> measure (\<lambda>(pat, s). length s)" by simp
qed

text \<open>
  \<open>trim\<close> removes white space and line terminators from both ends: TAB, LF, VT, FF, CR,
  SPACE, NBSP, the Unicode space separators, LS, PS and the byte order mark.
\<close>

definition isWhiteSpace :: "16 word \<Rightarrow> bool" where
  "isWhiteSpace c \<longleftrightarrow>
     c \<in> set [0x09, 0x0A, 0x0B, 0x0C, 0x0D, 0x20, 0xA0, 0x1680, 0x2028, 0x2029,
               0x202F, 0x205F, 0x3000, 0xFEFF]
     \<or> (0x2000 \<le> c \<and> c \<le> 0x200A)"

definition trim :: "jsstring \<Rightarrow> jsstring" where
  "trim s = dropWhile isWhiteSpace (rev (dropWhile isWhiteSpace (rev s)))"

definition cleanText :: "jsstring \<Rightarrow> jsstring" where
  "cleanText t = trim (replace_fence (u16 ''```'') (replace_fence (u16 ''```json'') t))"

text \<open>
  A reply wrapped in a fenced code block, as the specification speaks of it: the opening
  fence with its language tag (empty, or \<open>json\<close>) on a line of its own, the content, and
  the closing fence on a line of its own. The tag ends with its line, so that the
  content is what follows the line feed.
\<close>

definition fenced :: "jsstring \<Rightarrow> jsstring \<Rightarrow> jsstring" where
  "fenced tag t = u16 ''```'' @ tag @ [LF] @ t @ [LF] @ u16 ''```''"

section \<open>JSON values and the operations the handler applies to them\<close>

text \<open>
  A Number is an IEEE 754 double, kept as its 64 bits. What \<open>JSON.parse\<close> returns is a
  \<open>json\<close> value; an object is its own properties, in a list read from the left.
\<close>

type_synonym jsnumber = "64 word"

datatype json =
    JNull
  | JBool bool
  | JNumber jsnumber
  | JString jsstring
  | JArray "json list"
  | JObject "(jsstring \<times> json) list"

text \<open>The result of reading a property: \<open>undefined\<close>, or a value.\<close>

datatype jsvalue = Undefined | Value json

text \<open>
  What reading \<open>error.message\<close> gives for a thrown value other than \<open>null\<close> and
  \<open>undefined\<close>: \<open>undefined\<close> (no such property, as for a thrown string, number or
  boolean), \<open>null\<close>, a string, or another value. Of another value the catch block
  observes two things: what \<open>message.includes(p)\<close> comes to, \<open>None\<close> when the call throws
  (as it does when the value has no callable \<open>includes\<close>: a number, a boolean, a plain
  object) and the truth value of the result otherwise (an array has \<open>includes\<close>); and
  what serialising it as the \<open>details\<close> of the JSON body comes to, \<open>None\<close> when that
  throws, \<open>Some None\<close> when the property is left out, \<open>Some (Some j)\<close> when it is sent as
  \<open>j\<close>.
\<close>

datatype js_message =
    NoMessage
  | NullMessage
  | StringMessage jsstring
  | OtherMessage "jsstring \<Rightarrow> bool option" "json option option"

text \<open>
  A thrown value, as the \<open>catch (error: any)\<close> of the handler can receive it: \<open>null\<close> or
  \<open>undefined\<close>, or any other value, given by what the successive reads of its \<open>message\<close>
  property come to: the read number \<open>k\<close> gives \<open>Some m\<close>, or throws (\<open>None\<close>), as an
  accessor or a proxy may. An ordinary value gives the same at every read.
\<close>

datatype js_thrown = Nullish | NonNullish "nat \<Rightarrow> js_message option"

text \<open>A value whose \<open>message\<close> is a plain property: every read gives \<open>m\<close>.\<close>

definition withMessage :: "js_message \<Rightarrow> js_thrown" where
  "withMessage m = NonNullish (\<lambda>k. Some m)"

text \<open>\<open>new Error(m)\<close>, and the TypeErrors of the runtime: an object whose message is a string.\<close>

definition newError :: "jsstring \<Rightarrow> js_thrown" where
  "newError m = withMessage (StringMessage m)"

text \<open>
  \<open>v.key\<close> for a parsed value \<open>v\<close> and one of the keys the handler reads
  (\<open>isHealthDocument\<close>, \<open>documentType\<close>, \<open>confidence\<close>, \<open>reason\<close>; none of them is a
  property of a built-in prototype). Reading a property of \<open>null\<close> throws a TypeError
  (\<open>None\<close>); a boolean, number, string or array has no such property; an object yields
  its own property, if any.
\<close>

fun getProperty :: "json \<Rightarrow> jsstring \<Rightarrow> jsvalue option" where
  "getProperty JNull key = None"
| "getProperty (JObject kvs) key =
     Some (case map_of kvs key of None \<Rightarrow> Undefined | Some v \<Rightarrow> Value v)"
| "getProperty v key = Some Undefined"

text \<open>Zero of either sign and NaN are the falsy Numbers.\<close>

definition numberIsFalsy :: "jsnumber \<Rightarrow> bool" where
  "numberIsFalsy x \<longleftrightarrow>
     x = 0 \<or> x = 0x8000000000000000
     \<or> (0x7FF0000000000000 < x \<and> x < 0x8000000000000000) \<or> 0xFFF0000000000000 < x"

text \<open>The truth value that \<open>!v\<close> negates.\<close>

fun truthy :: "jsvalue \<Rightarrow> bool" where
  "truthy Undefined = False"
| "truthy (Value JNull) = False"
| "truthy (Value (JBool b)) = b"
| "truthy (Value (JNumber x)) = (\<not> numberIsFalsy x)"
| "truthy (Value (JString s)) = (s \<noteq> [])"
| "truthy (Value (JArray xs)) = True"
| "truthy (Value (JObject kvs)) = True"

fun join_comma :: "jsstring list \<Rightarrow> jsstring" where
  "join_comma [] = []"
| "join_comma [x] = x"
| "join_comma (x # y # ys) = x @ u16 '','' @ join_comma (y # ys)"

text \<open>
  Conversion to a string (ECMAScript's \<open>ToString\<close>), as a template literal applies it to
  a substitution; \<open>None\<close> when it throws a TypeError. The digits of a Number are the
  runtime's (\<open>ns\<close>). An array joins its converted elements with commas, a \<open>null\<close> element
  giving the empty string. An object is converted by \<open>OrdinaryToPrimitive\<close>, which calls
  its \<open>toString\<close> and then its \<open>valueOf\<close> if they are callable and takes the first
  result that is not an object. For a plain object that is the \<open>toString\<close> of
  \<open>Object.prototype\<close>, giving \<open>[object Object]\<close>, unless the object has an own property
  named \<open>toString\<close>: a parsed value is never callable, the inherited \<open>valueOf\<close> returns
  the object itself, and the conversion throws.
\<close>

fun toString :: "(jsnumber \<Rightarrow> jsstring) \<Rightarrow> json \<Rightarrow> jsstring option" where
  "toString ns JNull = Some (u16 ''null'')"
| "toString ns (JBool b) = Some (if b then u16 ''true'' else u16 ''false'')"
| "toString ns (JNumber x) = Some (ns x)"
| "toString ns (JString s) = Some s"
| "toString ns (JArray xs) =
     map_option join_comma
       (those (map (\<lambda>x. if x = JNull then Some [] else toString ns x) xs))"
| "toString ns (JObject kvs) =
     (if u16 ''toString'' \<in> fst ` set kvs then None else Some (u16 ''[object Object]''))"

fun substitution :: "(jsnumber \<Rightarrow> jsstring) \<Rightarrow> jsvalue \<Rightarrow> jsstring option" where
  "substitution ns Undefined = Some (u16 ''undefined'')"
| "substitution ns (Value v) = toString ns v"

text \<open>
  What the handler takes from the JavaScript runtime: \<open>JSON.parse\<close> (\<open>None\<close> when it throws
  a SyntaxError), the digits of a Number, and the messages of the two TypeErrors it can
  raise.
\<close>

record js_runtime =
  JSON_parse :: "jsstring \<Rightarrow> json option"
  Number_toString :: "jsnumber \<Rightarrow> jsstring"
  nullReadMessage :: jsstring
  toPrimitiveMessage :: jsstring

section \<open>Constants and types of the endpoint\<close>

text \<open>\<open>ALLOWED_FILE_TYPES\<close> and \<open>MAX_FILE_SIZE\<close> of \<open>@/types/health\<close>.\<close>

definition ALLOWED_FILE_TYPES :: "jsstring list" where
  "ALLOWED_FILE_TYPES =
     [u16 ''application/pdf'',
      u16 ''text/csv'',
      u16 ''application/msword'',
      u16 ''application/vnd.openxmlformats-officedocument.wordprocessingml.document'',
      u16 ''image/png'',
      u16 ''image/jpeg'',
      u16 ''image/jpg'']"

definition MAX_FILE_SIZE :: nat where
  "MAX_FILE_SIZE = 20 * 1024 * 1024"

text \<open>
  The uploaded \<open>File\<close>: the fields the handler reads. \<open>size\<close> is a whole number of bytes
  (exact as a Number below \<open>2^53\<close>).
\<close>

record uploaded_file =
  file_name :: jsstring
  file_type :: jsstring
  file_size :: nat
  file_bytes :: "8 word list"

text \<open>The two form fields, as \<open>formData.get\<close> returns them (\<open>None\<close> is \<open>null\<close>).\<close>

record form_data =
  form_file :: "uploaded_file option"
  form_walletAddress :: "jsstring option"

record token_reward =
  earnedTokens :: int
  totalTokens :: int
  isNewUser :: bool

record token_reward_out =
  earned :: int
  total :: int
  isNewUserOut :: bool

text \<open>
  \<open>HealthAnalysisResponse\<close>: the failure and the success shape of the JSON body. The
  details of a failure are a string, or left out; only the catch-all can send another
  value there, the raw message of a thrown value when that is not a string
  (\<open>FailureOther\<close>).
\<close>

datatype envelope =
    Failure (error: jsstring) (details: "jsstring option")
  | FailureOther jsstring json
  | Success (analysis: json) (fileName: jsstring) (fileSize: nat) (fileType: jsstring)
      (tokenReward: token_reward_out)

record response =
  status :: nat
  body :: envelope

text \<open>The document handed to \<open>HealthAnalysis.create\<close>.\<close>

record analysis_record =
  rec_walletAddress :: jsstring
  rec_fileName :: jsstring
  rec_fileSize :: nat
  rec_fileType :: jsstring
  rec_format :: jsstring
  rec_analysisData :: json

text \<open>
  The two instruction texts sent to the model, by name, and the inline part sent with
  them: the file's bytes (the source sends their Base64 text) and its MIME type.
\<close>

datatype prompt = HEALTH_DOCUMENT_CHECK_PROMPT | JSON_ANALYSIS_PROMPT

record inline_data =
  data :: "8 word list"
  mimeType :: jsstring

section \<open>Collaborators and the world\<close>

text \<open>
  The handler's collaborators, as what each answers during one request: the database
  connection (\<open>Some e\<close> when it rejects with \<open>e\<close>), the parsing of the request body as form
  data (\<open>None\<close> when it throws), the model call together with the reading of its text
  (\<open>Inl e\<close> when either throws), the insert and the reward.
\<close>

record services =
  dbConnect :: "js_thrown option"
  request_formData :: "form_data option"
  generateContent :: "prompt \<Rightarrow> inline_data \<Rightarrow> js_thrown + jsstring"
  HealthAnalysis_create :: "analysis_record \<Rightarrow> js_thrown option"
  rewardUserForAnalysis :: "jsstring \<Rightarrow> js_thrown + token_reward"

datatype call =
    DbConnect
  | GenerateContent prompt inline_data
  | Create analysis_record
  | RewardUser jsstring

text \<open>
  The world outside the handler: the calls issued to the collaborators so far, oldest
  first, and the analyses the persistence store holds.
\<close>

record world =
  calls :: "call list"
  stored :: "analysis_record list"

definition issue :: "call \<Rightarrow> world \<Rightarrow> world" where
  "issue c w = w\<lparr>calls := calls w @ [c]\<rparr>"

text \<open>
  Modelled from the spec: the effect of a successful \<open>HealthAnalysis.create\<close> (the model
  \<open>@/lib/models/HealthAnalysis\<close> is not among the sources). The persistence store
  exposes a create operation that durably stores the document it accepts; the reward
  ledger is a separate collaborator and does not touch the stored analyses.
\<close>

definition store :: "analysis_record \<Rightarrow> world \<Rightarrow> world" where
  "store d w = w\<lparr>stored := stored w @ [d]\<rparr>"

section \<open>The POST handler\<close>

subsection \<open>Upload validation (the four checks after the form is read)\<close>

definition missingFile :: response where
  "missingFile =
     \<lparr>status = 400,
      body = Failure
        (u16 ''Dosya bulunamad'' @ [0x0131] @ u16 ''. L'' @ [0x00FC] @
         u16 ''tfen bir dosya y'' @ [0x00FC] @ u16 ''kleyin.'')
        None\<rparr>"

definition missingWallet :: response where
  "missingWallet =
     \<lparr>status = 400,
      body = Failure
        (u16 ''Wallet adresi gerekli. L'' @ [0x00FC] @
         u16 ''tfen wallet adresinizi g'' @ [0x00F6] @ u16 ''nderin.'')
        None\<rparr>"

definition unsupportedType :: "jsstring \<Rightarrow> response" where
  "unsupportedType t =
     \<lparr>status = 400,
      body = Failure
        (u16 ''Desteklenmeyen dosya tipi: '' @ t)
        (Some (u16 ''Desteklenen formatlar: PDF, CSV, DOC, DOCX, PNG, JPEG''))\<rparr>"

definition tooLargeError :: jsstring where
  "tooLargeError =
     u16 ''Dosya boyutu '' @ [0x00E7] @ u16 ''ok b'' @ [0x00FC] @ u16 ''y'' @ [0x00FC] @ u16 ''k''"

definition tooLargeDetails :: "nat \<Rightarrow> jsstring" where
  "tooLargeDetails bytes =
     u16 ''Maksimum dosya boyutu: '' @ showNat (MAX_FILE_SIZE div 1024 div 1024) @
     u16 ''MB. Y'' @ [0x00FC] @ u16 ''klenen dosya: '' @ mib_toFixed2 bytes @ u16 ''MB''"

definition fileTooLarge :: "nat \<Rightarrow> response" where
  "fileTooLarge bytes =
     \<lparr>status = 400, body = Failure tooLargeError (Some (tooLargeDetails bytes))\<rparr>"

text \<open>
  The four checks of \<open>route.ts\<close>, lines 134 to 176, in their order: \<open>!file\<close>,
  \<open>!walletAddress\<close> (\<open>null\<close> and the empty string are falsy), the MIME type against the
  allow-list, the size against the ceiling. Each failing check returns its response.
\<close>

definition validate :: "form_data \<Rightarrow> response + uploaded_file \<times> jsstring" where
  "validate fd =
     (case form_file fd of
        None \<Rightarrow> Inl missingFile
      | Some file \<Rightarrow>
          (case form_walletAddress fd of
             None \<Rightarrow> Inl missingWallet
           | Some walletAddress \<Rightarrow>
               if walletAddress = [] then Inl missingWallet
               else if file_type file \<notin> set ALLOWED_FILE_TYPES
                 then Inl (unsupportedType (file_type file))
               else if file_size file > MAX_FILE_SIZE
                 then Inl (fileTooLarge (file_size file))
               else Inr (file, walletAddress)))"

subsection \<open>Classification\<close>

text \<open>
  The Number 50 is \<open>1.5625 * 2^5\<close>: sign 0, biased exponent \<open>1028 = 0x404\<close>, fraction
  \<open>0.5625 * 2^52 = 0x9000000000000\<close>.
\<close>

definition fifty :: jsnumber where
  "fifty = 0x4049000000000000"

definition defaultHealthCheck :: json where
  "defaultHealthCheck =
     JObject
       [(u16 ''isHealthDocument'', JBool True),
        (u16 ''confidence'', JNumber fifty),
        (u16 ''documentType'', JString (u16 ''Unknown'')),
        (u16 ''reason'', JString (u16 ''Could not verify document type''))]"

text \<open>
  The inner \<open>try\<close> around the parse of the classifier's reply, with its fallback
  (lines 209 to 224).
\<close>

definition parseHealthCheck :: "js_runtime \<Rightarrow> jsstring \<Rightarrow> json" where
  "parseHealthCheck rt checkText =
     (case JSON_parse rt (cleanText checkText) of
        Some healthCheck \<Rightarrow> healthCheck
      | None \<Rightarrow> defaultHealthCheck)"

definition catalog :: jsstring where
  "catalog =
     [0x000A, 0x000A] @
     u16 ''This system is designed exclusively for analyzing medical and health-r'' @
     u16 ''elated documents such as:'' @
     [0x000A, 0x2022] @
     u16 '' Laboratory test results (blood tests, urine analysis, etc.)'' @
     [0x000A, 0x2022] @
     u16 '' Medical imaging reports (X-ray, MRI, CT scan, ultrasound)'' @
     [0x000A, 0x2022] @
     u16 '' Doctor's medical reports and prescriptions'' @
     [0x000A, 0x2022] @
     u16 '' Vaccination records and immunization certificates'' @
     [0x000A, 0x2022] @
     u16 '' Health screening and check-up results'' @
     [0x000A, 0x2022] @
     u16 '' Medical diagnosis and treatment plans'' @
     [0x000A, 0x2022] @
     u16 '' Chronic disease monitoring reports'' @
     [0x000A, 0x2022] @
     u16 '' Medical examination findings'' @
     [0x000A, 0x000A] @
     u16 ''The uploaded document does not appear to contain medical or health dat'' @
     u16 ''a. Please upload a valid health document for analysis.'' @
     [0x000A, 0x000A] @
     u16 ''If you believe this is a medical document, please ensure:'' @
     [0x000A] @
     u16 ''1. The document is clearly readable and not corrupted'' @
     [0x000A] @
     u16 ''2. Medical terminology and test results are visible'' @
     [0x000A] @
     u16 ''3. The document format is supported (PDF, images, DOC, DOCX)'' @
     [0x000A, 0x000A] @
     u16 ''For accurate health analysis, please provide documents from:'' @
     [0x000A] @
     u16 ''- Hospitals and medical laboratories'' @
     [0x000A] @
     u16 ''- Licensed healthcare providers'' @
     [0x000A] @
     u16 ''- Certified medical diagnostic centers'' @
     [0x000A] @
     u16 ''- Official health institutions''"

text \<open>
  The \<open>details\<close> template of the rejection (lines 232 to 260), around its three converted
  substitutions.
\<close>

definition notHealthDetails :: "jsstring \<Rightarrow> jsstring \<Rightarrow> jsstring \<Rightarrow> jsstring" where
  "notHealthDetails documentType confidence reason =
     u16 ''Document Analysis:'' @ [0x000A, 0x000A] @ u16 ''Type: '' @ documentType @
     [0x000A] @ u16 ''Confidence: '' @ confidence @
     u16 ''%'' @ [0x000A, 0x000A] @ u16 ''Reason: '' @ reason @
     catalog"

definition notHealthDocument :: "jsstring \<Rightarrow> response" where
  "notHealthDocument d =
     \<lparr>status = 400,
      body = Failure (u16 ''This document is not health-related'') (Some d)\<rparr>"

text \<open>
  Evaluating the template: the three properties are read and converted from left to
  right, and the first conversion that throws ends the evaluation (\<open>None\<close>).
\<close>

definition substitute :: "js_runtime \<Rightarrow> json \<Rightarrow> jsstring \<Rightarrow> jsstring option" where
  "substitute rt healthCheck key =
     (case getProperty healthCheck key of
        None \<Rightarrow> None
      | Some v \<Rightarrow> substitution (Number_toString rt) v)"

definition renderNotHealthDetails :: "js_runtime \<Rightarrow> json \<Rightarrow> jsstring option" where
  "renderNotHealthDetails rt healthCheck =
     (case substitute rt healthCheck (u16 ''documentType'') of
        None \<Rightarrow> None
      | Some documentType \<Rightarrow>
          (case substitute rt healthCheck (u16 ''confidence'') of
             None \<Rightarrow> None
           | Some confidence \<Rightarrow>
               (case substitute rt healthCheck (u16 ''reason'') of
                  None \<Rightarrow> None
                | Some reason \<Rightarrow> Some (notHealthDetails documentType confidence reason))))"

subsection \<open>Extraction, persistence, reward\<close>

definition parseFailure :: "jsstring \<Rightarrow> response" where
  "parseFailure analysisText =
     \<lparr>status = 500,
      body = Failure (u16 ''Failed to parse AI analysis'')
        (Some (u16 ''The AI returned an invalid response format. Raw response: '' @
               substring0 analysisText 500 @ u16 ''...''))\<rparr>"

definition inlineData :: "uploaded_file \<Rightarrow> inline_data" where
  "inlineData file = \<lparr>data = file_bytes file, mimeType = file_type file\<rparr>"

definition analysisRecord :: "uploaded_file \<Rightarrow> jsstring \<Rightarrow> json \<Rightarrow> analysis_record" where
  "analysisRecord file walletAddress parsedAnalysis =
     \<lparr>rec_walletAddress = walletAddress,
      rec_fileName = file_name file,
      rec_fileSize = file_size file,
      rec_fileType = file_type file,
      rec_format = u16 ''json'',
      rec_analysisData = parsedAnalysis\<rparr>"

definition successResponse :: "uploaded_file \<Rightarrow> json \<Rightarrow> token_reward \<Rightarrow> response" where
  "successResponse file parsedAnalysis reward =
     \<lparr>status = 200,
      body = Success parsedAnalysis (file_name file) (file_size file) (file_type file)
        \<lparr>earned = earnedTokens reward,
         total = totalTokens reward,
         isNewUserOut = isNewUser reward\<rparr>\<rparr>"

text \<open>How a stretch of the handler ends: with a response returned, or with a thrown error.\<close>

datatype completion = Returned response | Thrown js_thrown

text \<open>Save to the database, then reward the user, then answer (lines 303 to 327).\<close>

definition saveAndReward ::
  "services \<Rightarrow> uploaded_file \<Rightarrow> jsstring \<Rightarrow> json \<Rightarrow> world \<Rightarrow> completion \<times> world" where
  "saveAndReward sv file walletAddress parsedAnalysis w =
     (let doc = analysisRecord file walletAddress parsedAnalysis;
          w1 = issue (Create doc) w
      in case HealthAnalysis_create sv doc of
           Some e \<Rightarrow> (Thrown e, w1)
         | None \<Rightarrow>
             (let w2 = issue (RewardUser walletAddress) (store doc w1)
              in case rewardUserForAnalysis sv walletAddress of
                   Inl e \<Rightarrow> (Thrown e, w2)
                 | Inr reward \<Rightarrow>
                     (Returned (successResponse file parsedAnalysis reward), w2)))"

text \<open>
  Step 2 (lines 266 to 301): the analysis call and the parse of its reply, a hard failure
  when it fails.
\<close>

definition analyzeDocument ::
  "js_runtime \<Rightarrow> services \<Rightarrow> uploaded_file \<Rightarrow> jsstring \<Rightarrow> world \<Rightarrow> completion \<times> world" where
  "analyzeDocument rt sv file walletAddress w =
     (let w1 = issue (GenerateContent JSON_ANALYSIS_PROMPT (inlineData file)) w
      in case generateContent sv JSON_ANALYSIS_PROMPT (inlineData file) of
           Inl e \<Rightarrow> (Thrown e, w1)
         | Inr analysisText \<Rightarrow>
             (case JSON_parse rt (cleanText analysisText) of
                None \<Rightarrow> (Returned (parseFailure analysisText), w1)
              | Some parsedAnalysis \<Rightarrow> saveAndReward sv file walletAddress parsedAnalysis w1))"

text \<open>
  Step 1 (lines 194 to 264): the classification call, the verdict, and the early
  rejection. \<open>healthCheck.isHealthDocument\<close> throws when the reply parsed to \<open>null\<close>; the
  template of the rejection throws when a substitution cannot be converted. Both errors
  are raised inside the outer \<open>try\<close>.
\<close>

definition checkHealthDocument ::
  "js_runtime \<Rightarrow> services \<Rightarrow> uploaded_file \<Rightarrow> jsstring \<Rightarrow> world \<Rightarrow> completion \<times> world" where
  "checkHealthDocument rt sv file walletAddress w =
     (let w1 = issue (GenerateContent HEALTH_DOCUMENT_CHECK_PROMPT (inlineData file)) w
      in case generateContent sv HEALTH_DOCUMENT_CHECK_PROMPT (inlineData file) of
           Inl e \<Rightarrow> (Thrown e, w1)
         | Inr checkText \<Rightarrow>
             (let healthCheck = parseHealthCheck rt checkText
              in case getProperty healthCheck (u16 ''isHealthDocument'') of
                   None \<Rightarrow> (Thrown (newError (nullReadMessage rt)), w1)
                 | Some isHealthDocument \<Rightarrow>
                     if \<not> truthy isHealthDocument
                     then (case renderNotHealthDetails rt healthCheck of
                             None \<Rightarrow> (Thrown (newError (toPrimitiveMessage rt)), w1)
                           | Some d \<Rightarrow> (Returned (notHealthDocument d), w1))
                     else analyzeDocument rt sv file walletAddress w1))"

subsection \<open>The handler and its catch-all\<close>

definition invalidRequestFormat :: response where
  "invalidRequestFormat =
     \<lparr>status = 400,
      body = Failure (u16 ''Invalid request format'')
        (Some (u16 ''Request body must be sent as multipart/form-data. Please ensure you ar'' @
               u16 ''e sending the file using FormData with the correct Content-Type header'' @
               u16 ''.''))\<rparr>"

text \<open>
  The body of the outer \<open>try\<close> (lines 112 to 327): connect to the database first, then
  read the form (a failure to read it is caught on the spot and answered with 400), then
  validate, then classify.
\<close>

definition POST_try :: "js_runtime \<Rightarrow> services \<Rightarrow> world \<Rightarrow> completion \<times> world" where
  "POST_try rt sv w =
     (let w1 = issue DbConnect w
      in case dbConnect sv of
           Some e \<Rightarrow> (Thrown e, w1)
         | None \<Rightarrow>
             (case request_formData sv of
                None \<Rightarrow> (Returned invalidRequestFormat, w1)
              | Some formData \<Rightarrow>
                  (case validate formData of
                     Inl r \<Rightarrow> (Returned r, w1)
                   | Inr (file, walletAddress) \<Rightarrow>
                       checkHealthDocument rt sv file walletAddress w1)))"

text \<open>
  \<open>m?.includes(p)\<close> for a message \<open>m\<close>, as the condition of an \<open>if\<close>: falsy when \<open>m\<close> is
  \<open>undefined\<close> or \<open>null\<close> (the optional chain stops there), the occurrence of \<open>p\<close> when
  it is a string, and for another value what its \<open>includes\<close> comes to; \<open>None\<close> when the
  call throws.
\<close>

definition messageIncludes :: "js_message \<Rightarrow> jsstring \<Rightarrow> bool option" where
  "messageIncludes m p =
     (case m of
        NoMessage \<Rightarrow> Some False
      | NullMessage \<Rightarrow> Some False
      | StringMessage text \<Rightarrow> Some (str_includes text p)
      | OtherMessage includesResult serialised \<Rightarrow> includesResult p)"

definition genericError :: jsstring where
  "genericError =
     u16 ''Analiz s'' @ [0x0131] @ u16 ''ras'' @ [0x0131] @ u16 ''nda bir hata olu'' @
     [0x015F] @ u16 ''tu''"

definition apiKeyError :: "jsstring \<times> jsstring" where
  "apiKeyError =
     (u16 ''API key hatas'' @ [0x0131],
      u16 ''Gemini API key ge'' @ [0x00E7] @ u16 ''ersiz veya eksik'')"

definition quotaError :: "jsstring \<times> jsstring" where
  "quotaError =
     (u16 ''API kotas'' @ [0x0131] @ u16 '' a'' @ [0x015F, 0x0131] @ u16 ''ld'' @ [0x0131],
      u16 ''G'' @ [0x00FC] @ u16 ''nl'' @ [0x00FC] @ u16 ''k API kullan'' @ [0x0131] @
      u16 ''m limiti doldu'')"

definition invalidFileError :: "jsstring \<times> jsstring" where
  "invalidFileError =
     (u16 ''Ge'' @ [0x00E7] @ u16 ''ersiz dosya format'' @ [0x0131],
      u16 ''Dosya format'' @ [0x0131] @ u16 '' okunamad'' @ [0x0131] @ u16 '' veya bozuk'')"

definition failure500 :: "jsstring \<Rightarrow> jsstring option \<Rightarrow> response" where
  "failure500 errorMessage errorDetails =
     \<lparr>status = 500, body = Failure errorMessage errorDetails\<rparr>"

text \<open>
  The response built when no special case applies (lines 346 to 353): the generic error
  with \<open>errorDetails = error.message\<close>, serialised by \<open>NextResponse.json\<close>. An \<open>undefined\<close>
  details is left out of the body; a value that cannot be serialised makes the call
  throw.
\<close>

definition withDetails :: "jsstring \<Rightarrow> json \<Rightarrow> response" where
  "withDetails errorMessage j =
     (case j of
        JString text \<Rightarrow> failure500 errorMessage (Some text)
      | _ \<Rightarrow> \<lparr>status = 500, body = FailureOther errorMessage j\<rparr>)"

definition genericFailure :: "js_message \<Rightarrow> response option" where
  "genericFailure m =
     (case m of
        NoMessage \<Rightarrow> Some (failure500 genericError None)
      | NullMessage \<Rightarrow> Some (withDetails genericError JNull)
      | StringMessage text \<Rightarrow> Some (failure500 genericError (Some text))
      | OtherMessage includesResult serialised \<Rightarrow>
          (case serialised of
             None \<Rightarrow> None
           | Some None \<Rightarrow> Some (failure500 genericError None)
           | Some (Some j) \<Rightarrow> Some (withDetails genericError j)))"

text \<open>
  \<open>error.message?.includes(p)\<close> at the read number \<open>k\<close> of the message: the read may throw,
  and so may the call.
\<close>

definition condition :: "(nat \<Rightarrow> js_message option) \<Rightarrow> nat \<Rightarrow> jsstring \<Rightarrow> bool option" where
  "condition message k p =
     (case message k of None \<Rightarrow> None | Some m \<Rightarrow> messageIncludes m p)"

text \<open>
  The outer \<open>catch\<close> (lines 329 to 354), for any thrown value; \<open>None\<close> when the block itself
  throws, so that the handler returns no response. Line 333 reads \<open>error.message\<close>
  unguarded into \<open>errorDetails\<close>, which throws for \<open>null\<close> and \<open>undefined\<close>. The conditions
  of lines 335, 338 and 341 are then evaluated in order, each reading the message again
  and calling its \<open>includes\<close>; the first that holds replaces the generic error and its
  details, and when none holds the response carries the generic error and
  \<open>errorDetails\<close>.
\<close>

definition catchAll :: "js_thrown \<Rightarrow> response option" where
  "catchAll thrown =
     (case thrown of
        Nullish \<Rightarrow> None
      | NonNullish message \<Rightarrow>
          (case message 0 of
             None \<Rightarrow> None
           | Some errorDetails \<Rightarrow>
               (case condition message 1 (u16 ''API key'') of
                  None \<Rightarrow> None
                | Some hasApiKey \<Rightarrow>
                    if hasApiKey
                    then Some (failure500 (fst apiKeyError) (Some (snd apiKeyError)))
                    else
                      (case condition message 2 (u16 ''quota'') of
                         None \<Rightarrow> None
                       | Some hasQuota \<Rightarrow>
                           if hasQuota
                           then Some (failure500 (fst quotaError) (Some (snd quotaError)))
                           else
                             (case condition message 3 (u16 ''invalid'') of
                                None \<Rightarrow> None
                              | Some hasInvalid \<Rightarrow>
                                  if hasInvalid
                                  then Some (failure500 (fst invalidFileError)
                                               (Some (snd invalidFileError)))
                                  else genericFailure errorDetails)))))"

text \<open>
  The outcome of a completed \<open>try\<close>: the response it returned, or what the \<open>catch\<close> makes
  of the thrown value; \<open>None\<close> when the handler ends without a response.
\<close>

fun finish :: "completion \<times> world \<Rightarrow> response option \<times> world" where
  "finish (Returned r, w) = (Some r, w)"
| "finish (Thrown thrown, w) = (catchAll thrown, w)"

definition POST :: "js_runtime \<Rightarrow> services \<Rightarrow> world \<Rightarrow> response option \<times> world" where
  "POST rt sv w = finish (POST_try rt sv w)"

section \<open>The GET handler\<close>

text \<open>The readiness payload (lines 358 to 366).\<close>

record readiness =
  ready_status :: jsstring
  ready_message :: jsstring
  supportedFileTypes :: "jsstring list"
  maxFileSize :: jsstring
  responseFormat :: jsstring

definition GET :: readiness where
  "GET =
     \<lparr>ready_status = u16 ''ready'',
      ready_message = u16 ''Health analysis API is ready (JSON format only)'',
      supportedFileTypes = ALLOWED_FILE_TYPES,
      maxFileSize = showNat (MAX_FILE_SIZE div 1024 div 1024) @ u16 ''MB'',
      responseFormat = u16 ''JSON''\<rparr>"

section \<open>The error rules, as the specification words them\<close>

text \<open>
  A prioritized list of (pattern, error, details) rules, evaluated in order on the text of
  the error's message, if it has one; the first rule whose pattern occurs in the message
  decides, and the generic error with the raw message as details is the fallback.
\<close>

definition errorRules :: "(jsstring \<times> jsstring \<times> jsstring) list" where
  "errorRules =
     [(u16 ''API key'', apiKeyError),
      (u16 ''quota'', quotaError),
      (u16 ''invalid'', invalidFileError)]"

definition errorByRules :: "jsstring option \<Rightarrow> response" where
  "errorByRules message =
     (case find (\<lambda>rule. case message of None \<Rightarrow> False | Some text \<Rightarrow> str_includes text (fst rule))
             errorRules of
        Some (pattern, errorMessage, errorDetails) \<Rightarrow>
          \<lparr>status = 500, body = Failure errorMessage (Some errorDetails)\<rparr>
      | None \<Rightarrow> \<lparr>status = 500, body = Failure genericError message\<rparr>)"

text \<open>
  The thrown values the rules are about: anything but \<open>null\<close> and \<open>undefined\<close> whose
  message is a plain property holding a string (\<open>Some\<close>) or \<open>undefined\<close> (\<open>None\<close>).
\<close>

definition thrownWith :: "jsstring option \<Rightarrow> js_thrown" where
  "thrownWith message =
     withMessage (case message of None \<Rightarrow> NoMessage | Some text \<Rightarrow> StringMessage text)"

section \<open>Auxiliary predicates\<close>

text \<open>Whether a request gets through the reading of the form and the four checks.\<close>

definition validationPasses :: "services \<Rightarrow> bool" where
  "validationPasses sv =
     (case request_formData sv of
        None \<Rightarrow> False
      | Some fd \<Rightarrow> (case validate fd of Inl r \<Rightarrow> False | Inr ok \<Rightarrow> True))"

section \<open>Example requests\<close>

definition quote :: jsstring where
  "quote = [0x22]"

text \<open>The reply \<^verbatim>\<open>{"isHealthDocument":true}\<close> and its value.\<close>

definition healthyReply :: jsstring where
  "healthyReply = u16 ''{'' @ quote @ u16 ''isHealthDocument'' @ quote @ u16 '':true}''"

definition healthyVerdict :: json where
  "healthyVerdict = JObject [(u16 ''isHealthDocument'', JBool True)]"

text \<open>
  The reply \<^verbatim>\<open>{"isHealthDocument":false,"confidence":50,"documentType":"Invoice","reason":"No"}\<close>
  and its value.
\<close>

definition rejectingReply :: jsstring where
  "rejectingReply =
     u16 ''{'' @ quote @ u16 ''isHealthDocument'' @ quote @ u16 '':false,'' @
     quote @ u16 ''confidence'' @ quote @ u16 '':50,'' @
     quote @ u16 ''documentType'' @ quote @ u16 '':'' @ quote @ u16 ''Invoice'' @ quote @ u16 '','' @
     quote @ u16 ''reason'' @ quote @ u16 '':'' @ quote @ u16 ''No'' @ quote @ u16 ''}''"

definition rejectingVerdict :: "(jsstring \<times> json) list" where
  "rejectingVerdict =
     [(u16 ''isHealthDocument'', JBool False),
      (u16 ''confidence'', JNumber fifty),
      (u16 ''documentType'', JString (u16 ''Invoice'')),
      (u16 ''reason'', JString (u16 ''No''))]"

text \<open>The reply \<^verbatim>\<open>{"isHealthDocument":false,"reason":{"toString":null}}\<close> and its value.\<close>

definition oddReply :: jsstring where
  "oddReply =
     u16 ''{'' @ quote @ u16 ''isHealthDocument'' @ quote @ u16 '':false,'' @
     quote @ u16 ''reason'' @ quote @ u16 '':{'' @ quote @ u16 ''toString'' @ quote @
     u16 '':null}}''"

definition oddVerdict :: "(jsstring \<times> json) list" where
  "oddVerdict =
     [(u16 ''isHealthDocument'', JBool False),
      (u16 ''reason'', JObject [(u16 ''toString'', JNull)])]"

text \<open>
  A runtime that parses these replies and \<^verbatim>\<open>{}\<close>, and rejects every other text used
  below (none of them is JSON); its TypeErrors carry the messages of V8.
\<close>

definition exampleRuntime :: js_runtime where
  "exampleRuntime =
     \<lparr>JSON_parse = (\<lambda>s.
         if s = healthyReply then Some healthyVerdict
         else if s = rejectingReply then Some (JObject rejectingVerdict)
         else if s = oddReply then Some (JObject oddVerdict)
         else if s = u16 ''{}'' then Some (JObject [])
         else None),
      Number_toString = (\<lambda>x. if x = fifty then u16 ''50'' else u16 ''0''),
      nullReadMessage = u16 ''Cannot read properties of null (reading 'isHealthDocument')'',
      toPrimitiveMessage = u16 ''Cannot convert object to primitive value''\<rparr>"

definition exampleFile :: "nat \<Rightarrow> uploaded_file" where
  "exampleFile bytes =
     \<lparr>file_name = u16 ''report.pdf'', file_type = u16 ''application/pdf'',
      file_size = bytes, file_bytes = [0x25, 0x50, 0x44, 0x46]\<rparr>"

definition exampleWallet :: jsstring where
  "exampleWallet = u16 ''0xA1''"

definition exampleReward :: token_reward where
  "exampleReward = \<lparr>earnedTokens = 10, totalTokens = 10, isNewUser = True\<rparr>"

text \<open>
  Collaborators for a request with a file of the given size: the database answers
  \<open>db\<close>, the classifier replies \<open>checkReply\<close>, the extractor \<open>analysisReply\<close>, the insert
  succeeds and the reward answers \<open>reward\<close>.
\<close>

definition exampleServices ::
  "js_thrown option \<Rightarrow> nat \<Rightarrow> jsstring \<Rightarrow> jsstring \<Rightarrow> js_thrown + token_reward \<Rightarrow> services" where
  "exampleServices db bytes checkReply analysisReply reward =
     \<lparr>dbConnect = db,
      request_formData =
        Some \<lparr>form_file = Some (exampleFile bytes), form_walletAddress = Some exampleWallet\<rparr>,
      generateContent = (\<lambda>p d.
        case p of
          HEALTH_DOCUMENT_CHECK_PROMPT \<Rightarrow> Inr checkReply
        | JSON_ANALYSIS_PROMPT \<Rightarrow> Inr analysisReply),
      HealthAnalysis_create = (\<lambda>doc. None),
      rewardUserForAnalysis = (\<lambda>walletAddress. reward)\<rparr>"

text \<open>A request whose form has no file field.\<close>

definition noFileServices :: services where
  "noFileServices =
     (exampleServices None 0 [] [] (Inr exampleReward))
       \<lparr>request_formData := Some \<lparr>form_file = None, form_walletAddress = Some exampleWallet\<rparr>\<rparr>"

definition emptyWorld :: world where
  "emptyWorld = \<lparr>calls = [], stored = []\<rparr>"

section \<open>Properties of the string helpers\<close>

lemma fence_literals:
  "u16 ''```'' = [0x60, 0x60, 0x60]"
  "u16 ''```json'' = [0x60, 0x60, 0x60, 0x6A, 0x73, 0x6F, 0x6E]"
  "u16 ''json'' = [0x6A, 0x73, 0x6F, 0x6E]"
  by (simp_all add: u16_def)

lemma skip_newline_append: "r \<noteq> [] \<Longrightarrow> skip_newline (r @ x) = skip_newline r @ x"
  by (cases r) (simp_all add: skip_newline_def)

lemma not_prefix_append_LF:
  assumes "LF \<notin> set pat" and "\<not> prefix pat s"
  shows "\<not> prefix pat (s @ LF # r)"
proof
  assume "prefix pat (s @ LF # r)"
  with assms(2) obtain us where us: "pat = s @ us" "prefix us (LF # r)"
    by (auto simp: prefix_append)
  from us(1) assms(2) have "us \<noteq> []" by auto
  with us(2) have "hd us = LF" by (cases us) auto
  with \<open>us \<noteq> []\<close> us(1) have "LF \<in> set pat" by (cases us) auto
  with assms(1) show False by simp
qed

text \<open>
  Removing the fences of a text that continues on a new line: the two parts are cleaned
  separately, and the line feed between them survives unless a fence just before it
  consumed it.
\<close>

lemma replace_fence_append_LF:
  assumes "pat \<noteq> []" and "LF \<notin> set pat"
  shows "replace_fence pat (t @ LF # r) = replace_fence pat t @ LF # replace_fence pat r
       \<or> replace_fence pat (t @ LF # r) = replace_fence pat t @ replace_fence pat r"
  using assms
proof (induction pat t rule: replace_fence.induct)
  case (1 pat)
  then have "\<not> prefix pat (LF # r)" by (cases pat) auto
  then show ?case by simp
next
  case (2 pat c cs)
  show ?case
  proof (cases "prefix pat (c # cs)")
    case True
    define rest where "rest = drop (length pat) (c # cs)"
    from True have pre: "prefix pat ((c # cs) @ LF # r)"
      by (simp add: prefix_prefix del: append_Cons)
    from True have len: "length pat \<le> length (c # cs)" by (rule prefix_length_le)
    then have dr: "drop (length pat) ((c # cs) @ LF # r) = rest @ LF # r"
      unfolding rest_def by (simp del: append_Cons drop_Suc_Cons)
    have lhs: "replace_fence pat ((c # cs) @ LF # r)
             = replace_fence pat (skip_newline (rest @ LF # r))"
      using pre "2.prems"(1) dr by simp
    have rhs: "replace_fence pat (c # cs) = replace_fence pat (skip_newline rest)"
      using True "2.prems"(1) by (simp add: rest_def)
    show ?thesis
    proof (cases "rest = []")
      case True
      then show ?thesis using lhs rhs by (simp add: skip_newline_def)
    next
      case False
      then have "skip_newline (rest @ LF # r) = skip_newline rest @ LF # r"
        by (rule skip_newline_append)
      moreover have "replace_fence pat (skip_newline rest @ LF # r)
             = replace_fence pat (skip_newline rest) @ LF # replace_fence pat r
          \<or> replace_fence pat (skip_newline rest @ LF # r)
             = replace_fence pat (skip_newline rest) @ replace_fence pat r"
        using "2.IH"(1) True "2.prems" by (simp add: rest_def)
      ultimately show ?thesis using lhs rhs by simp
    qed
  next
    case False
    with "2.prems"(2) have "\<not> prefix pat ((c # cs) @ LF # r)"
      by (intro not_prefix_append_LF)
    then have "replace_fence pat ((c # cs) @ LF # r) = c # replace_fence pat (cs @ LF # r)"
      by simp
    moreover from False have "replace_fence pat (c # cs) = c # replace_fence pat cs" by simp
    moreover have "replace_fence pat (cs @ LF # r)
          = replace_fence pat cs @ LF # replace_fence pat r
       \<or> replace_fence pat (cs @ LF # r) = replace_fence pat cs @ replace_fence pat r"
      using "2.IH"(2) False "2.prems" by simp
    ultimately show ?thesis by auto
  qed
qed

text \<open>A closing fence directly after a text disappears without a trace.\<close>

lemma replace_ticks_append_ticks:
  "replace_fence (u16 ''```'') (u @ u16 ''```'') = replace_fence (u16 ''```'') u"
proof (induction "u16 ''```''" u rule: replace_fence.induct)
  case 1
  show ?case by (simp add: fence_literals skip_newline_def)
next
  case (2 c cs)
  let ?T = "u16 ''```''"
  have ne: "?T \<noteq> []" by (simp add: fence_literals)
  show ?case
  proof (cases "prefix ?T (c # cs)")
    case True
    define rest where "rest = drop (length ?T) (c # cs)"
    from True have pre: "prefix ?T ((c # cs) @ ?T)"
      by (simp add: prefix_prefix del: append_Cons)
    from True have len: "length ?T \<le> length (c # cs)" by (rule prefix_length_le)
    then have dr: "drop (length ?T) ((c # cs) @ ?T) = rest @ ?T"
      unfolding rest_def by (simp del: append_Cons drop_Suc_Cons)
    have lhs: "replace_fence ?T ((c # cs) @ ?T) = replace_fence ?T (skip_newline (rest @ ?T))"
      using pre ne dr by simp
    have rhs: "replace_fence ?T (c # cs) = replace_fence ?T (skip_newline rest)"
      using True ne by (simp add: rest_def)
    show ?thesis
    proof (cases "rest = []")
      case True
      then show ?thesis using lhs rhs by (simp add: skip_newline_def fence_literals LF_def)
    next
      case False
      then have "skip_newline (rest @ ?T) = skip_newline rest @ ?T"
        by (rule skip_newline_append)
      moreover have "replace_fence ?T (skip_newline rest @ ?T)
                   = replace_fence ?T (skip_newline rest)"
        using "2.hyps"(1) True ne by (simp add: rest_def)
      ultimately show ?thesis using lhs rhs by simp
    qed
  next
    case False
    show ?thesis
    proof (cases "prefix ?T ((c # cs) @ ?T)")
      case True
      with False have "c # cs = [0x60] \<or> c # cs = [0x60, 0x60]"
        by (cases cs; cases "tl cs"; cases "tl (tl cs)") (auto simp: fence_literals)
      then show ?thesis
        by (auto simp: fence_literals skip_newline_def LF_def)
    next
      case nopre: False
      then have "replace_fence ?T ((c # cs) @ ?T) = c # replace_fence ?T (cs @ ?T)"
        by simp
      moreover from False have "replace_fence ?T (c # cs) = c # replace_fence ?T cs" by simp
      moreover have "replace_fence ?T (cs @ ?T) = replace_fence ?T cs"
        using "2.hyps"(2) False by simp
      ultimately show ?thesis by simp
    qed
  qed
qed

lemma trim_append_LF: "trim (x @ [LF]) = trim x"
  by (simp add: trim_def isWhiteSpace_def LF_def)

lemma cleanText_closing_fence: "cleanText (t @ LF # u16 ''```'') = cleanText t"
proof -
  let ?T = "u16 ''```''" and ?J = "u16 ''```json''"
  have J: "?J \<noteq> []" "LF \<notin> set ?J" by (simp_all add: fence_literals LF_def)
  have T: "?T \<noteq> []" "LF \<notin> set ?T" by (simp_all add: fence_literals LF_def)
  have JT: "replace_fence ?J ?T = ?T" by (simp add: fence_literals)
  from replace_fence_append_LF [OF J, of t ?T]
  consider (kept) "replace_fence ?J (t @ LF # ?T) = replace_fence ?J t @ LF # ?T"
    | (consumed) "replace_fence ?J (t @ LF # ?T) = replace_fence ?J t @ ?T"
    by (auto simp: JT)
  then have "trim (replace_fence ?T (replace_fence ?J (t @ LF # ?T)))
           = trim (replace_fence ?T (replace_fence ?J t))"
  proof cases
    case kept
    have "replace_fence ?T (replace_fence ?J t @ LF # ?T)
            = replace_fence ?T (replace_fence ?J t) @ [LF]
        \<or> replace_fence ?T (replace_fence ?J t @ LF # ?T)
            = replace_fence ?T (replace_fence ?J t)"
      using replace_fence_append_LF [OF T, of "replace_fence ?J t" ?T]
        replace_ticks_append_ticks [of "[]"] by simp
    with kept show ?thesis by (auto simp: trim_append_LF)
  next
    case consumed
    then show ?thesis by (simp add: replace_ticks_append_ticks)
  qed
  then show ?thesis by (simp add: cleanText_def)
qed

lemma cleanText_fenced_json: "cleanText (fenced (u16 ''json'') t) = cleanText t"
proof -
  have "replace_fence (u16 ''```json'') (fenced (u16 ''json'') t)
      = replace_fence (u16 ''```json'') (t @ LF # u16 ''```'')"
    by (simp add: fenced_def fence_literals skip_newline_def)
  then have "cleanText (fenced (u16 ''json'') t) = cleanText (t @ LF # u16 ''```'')"
    by (simp add: cleanText_def)
  then show ?thesis by (simp add: cleanText_closing_fence)
qed

lemma cleanText_fenced_plain: "cleanText (fenced [] t) = cleanText t"
proof -
  let ?x = "replace_fence (u16 ''```json'') (t @ LF # u16 ''```'')"
  have "replace_fence (u16 ''```json'') (fenced [] t) = u16 ''```'' @ LF # ?x"
    by (simp add: fenced_def fence_literals LF_def)
  moreover have "replace_fence (u16 ''```'') (u16 ''```'' @ LF # ?x)
               = replace_fence (u16 ''```'') ?x"
    by (simp add: fence_literals skip_newline_def)
  ultimately have "cleanText (fenced [] t) = cleanText (t @ LF # u16 ''```'')"
    by (simp add: cleanText_def)
  then show ?thesis by (simp add: cleanText_closing_fence)
qed

lemma replace_fence_absent:
  "pat \<noteq> [] \<Longrightarrow> hd pat \<notin> set s \<Longrightarrow> replace_fence pat s = s"
proof (induction s)
  case Nil
  then show ?case by simp
next
  case (Cons c cs)
  then have "\<not> prefix pat (c # cs)" by (cases pat) auto
  with Cons show ?case by simp
qed

lemma trim_solid:
  "s \<noteq> [] \<Longrightarrow> \<not> isWhiteSpace (hd s) \<Longrightarrow> \<not> isWhiteSpace (last s) \<Longrightarrow> trim s = s"
proof -
  assume s: "s \<noteq> []" and h: "\<not> isWhiteSpace (hd s)" and l: "\<not> isWhiteSpace (last s)"
  from s l have "dropWhile isWhiteSpace (rev s) = rev s"
    by (simp add: dropWhile_eq_self_iff hd_rev)
  moreover from h have "dropWhile isWhiteSpace s = s"
    by (simp add: dropWhile_eq_self_iff)
  ultimately show ?thesis by (simp add: trim_def)
qed

lemma cleanText_replicate_x: "0 < n \<Longrightarrow> cleanText (replicate n 0x78) = replicate n 0x78"
proof -
  assume n: "0 < n"
  have "replace_fence (u16 ''```json'') (replicate n 0x78) = replicate n 0x78"
    by (rule replace_fence_absent) (simp_all add: fence_literals)
  moreover have "replace_fence (u16 ''```'') (replicate n 0x78) = replicate n 0x78"
    by (rule replace_fence_absent) (simp_all add: fence_literals)
  moreover have "trim (replicate n 0x78) = replicate n 0x78"
    using n by (intro trim_solid) (simp_all add: isWhiteSpace_def hd_replicate)
  ultimately show ?thesis by (simp add: cleanText_def)
qed

section \<open>Properties of the handler's stages\<close>

lemma issue_simps [simp]:
  "calls (issue c w) = calls w @ [c]" "stored (issue c w) = stored w"
  by (simp_all add: issue_def)

lemma store_simps [simp]:
  "calls (store d w) = calls w" "stored (store d w) = stored w @ [d]"
  by (simp_all add: store_def)

lemma snd_finish [simp]: "snd (finish x) = snd x"
  by (cases x rule: finish.cases) simp_all

text \<open>
  On a thrown value whose message is a string or \<open>undefined\<close> the catch block is the
  rule list; whatever it answers has status 500.
\<close>

lemma catchAll_thrownWith: "catchAll (thrownWith message) = Some (errorByRules message)"
  by (cases message)
    (simp_all add: catchAll_def thrownWith_def withMessage_def condition_def
      messageIncludes_def genericFailure_def errorByRules_def errorRules_def failure500_def
      case_prod_beta)

lemma catchAll_newError: "catchAll (newError m) = Some (errorByRules (Some m))"
  using catchAll_thrownWith [of "Some m"] by (simp add: thrownWith_def newError_def)

lemma status_errorByRules: "status (errorByRules message) = 500"
  by (simp add: errorByRules_def errorRules_def case_prod_beta)

lemma body_errorByRules: "\<exists>m d. body (errorByRules message) = Failure m d"
  by (simp add: errorByRules_def errorRules_def case_prod_beta)




lemma POST_validated:
  assumes "dbConnect sv = None" and "request_formData sv = Some fd"
    and "validate fd = Inr (file, walletAddress)"
  shows "POST rt sv w = finish (checkHealthDocument rt sv file walletAddress (issue DbConnect w))"
  using assms by (simp add: POST_def POST_try_def)

lemma checkHealthDocument_positive:
  assumes "generateContent sv HEALTH_DOCUMENT_CHECK_PROMPT (inlineData file) = Inr checkText"
    and "getProperty (parseHealthCheck rt checkText) (u16 ''isHealthDocument'') = Some v"
    and "truthy v"
  shows "checkHealthDocument rt sv file walletAddress w
       = analyzeDocument rt sv file walletAddress
           (issue (GenerateContent HEALTH_DOCUMENT_CHECK_PROMPT (inlineData file)) w)"
  using assms by (simp add: checkHealthDocument_def)

lemma saveAndReward_calls:
  "\<exists>rest. calls (snd (saveAndReward sv file walletAddress parsed w))
     = calls w @ Create (analysisRecord file walletAddress parsed) # rest"
  by (simp add: saveAndReward_def Let_def split: option.split sum.split)

lemma analyzeDocument_calls:
  "\<exists>rest. calls (snd (analyzeDocument rt sv file walletAddress w))
     = calls w @ GenerateContent JSON_ANALYSIS_PROMPT (inlineData file) # rest"
proof (cases "generateContent sv JSON_ANALYSIS_PROMPT (inlineData file)")
  case (Inl e)
  then show ?thesis by (simp add: analyzeDocument_def)
next
  case (Inr analysisText)
  show ?thesis
  proof (cases "JSON_parse rt (cleanText analysisText)")
    case None
    with Inr show ?thesis by (simp add: analyzeDocument_def)
  next
    case (Some parsed)
    from saveAndReward_calls [of sv "file" walletAddress parsed
        "issue (GenerateContent JSON_ANALYSIS_PROMPT (inlineData file)) w"]
    obtain rest where "calls (snd (saveAndReward sv file walletAddress parsed
        (issue (GenerateContent JSON_ANALYSIS_PROMPT (inlineData file)) w)))
      = (calls w @ [GenerateContent JSON_ANALYSIS_PROMPT (inlineData file)])
          @ Create (analysisRecord file walletAddress parsed) # rest"
      by auto
    with Inr Some show ?thesis by (simp add: analyzeDocument_def)
  qed
qed

lemma checkHealthDocument_calls:
  "\<exists>rest. calls (snd (checkHealthDocument rt sv file walletAddress w))
     = calls w @ GenerateContent HEALTH_DOCUMENT_CHECK_PROMPT (inlineData file) # rest"
proof -
  let ?w1 = "issue (GenerateContent HEALTH_DOCUMENT_CHECK_PROMPT (inlineData file)) w"
  from analyzeDocument_calls [of rt sv "file" walletAddress ?w1]
  obtain rest where r: "calls (snd (analyzeDocument rt sv file walletAddress ?w1))
      = calls w @ GenerateContent HEALTH_DOCUMENT_CHECK_PROMPT (inlineData file)
          # GenerateContent JSON_ANALYSIS_PROMPT (inlineData file) # rest"
    by auto
  show ?thesis
    by (simp add: checkHealthDocument_def Let_def r split: option.split sum.split)
qed

lemma POST_try_calls:
  "\<exists>rest. calls (snd (POST_try rt sv w)) = calls w @ DbConnect # rest"
proof -
  have "\<exists>rest. calls (snd (checkHealthDocument rt sv f walletAddress (issue DbConnect w)))
      = calls w @ DbConnect # rest" for f walletAddress
    using checkHealthDocument_calls [of rt sv f walletAddress "issue DbConnect w"]
    by auto
  then show ?thesis
    by (simp add: POST_try_def Let_def split: option.split sum.split prod.split)
qed

lemma POST_not_validated:
  assumes "\<not> validationPasses sv"
  shows "snd (POST rt sv w) = issue DbConnect w"
  using assms
  by (auto simp: POST_def POST_try_def validationPasses_def Let_def
      split: option.splits sum.splits)

lemma fifty_is_50:
  "(2 ^ 52 + unat (and fifty (2 ^ 52 - 1))) * 2 ^ (unat (drop_bit 52 fifty) - 1023)
     = 50 * (2 ^ 52 :: nat)"
  by (simp add: fifty_def)

text \<open>\<open>includes\<close> is the occurrence of a contiguous sublist.\<close>

lemma str_includes_sublist: "str_includes s p \<longleftrightarrow> sublist p s"
  by (induction s) (auto simp: sublist_Cons_right)

lemma messageIncludes_sublist:
  "messageIncludes (StringMessage m) p = Some (sublist p m)"
  by (simp add: messageIncludes_def str_includes_sublist)

lemma showNat_nonempty: "showNat n \<noteq> []"
  by (subst showNat.simps) simp

lemma digitValue_digit: "d < 10 \<Longrightarrow> digitValue (digit d) = d"
  unfolding digitValue_def digit_def unat_of_nat by simp

lemma readNat_snoc: "readNat (s @ [c]) = readNat s * 10 + digitValue c"
  by (simp add: readNat_def)

lemma readNat_showNat: "readNat (showNat n) = n"
proof (induction n rule: showNat.induct)
  case (1 n)
  show ?case
  proof (cases "n < 10")
    case True
    then show ?thesis by (subst showNat.simps) (simp add: readNat_def digitValue_digit)
  next
    case False
    then have "readNat (showNat n)
        = readNat (showNat (n div 10)) * 10 + digitValue (digit (n mod 10))"
      by (subst showNat.simps) (simp add: readNat_snoc)
    with False "1.IH" show ?thesis by (simp add: digitValue_digit)
  qed
qed

lemma hundredths_nearest:
  "hundredthsOfMiB b * 1048576 \<le> 100 * b + 524288
   \<and> 100 * b + 524288 < (hundredthsOfMiB b + 1) * 1048576"
proof -
  let ?x = "b * 100 + 524288"
  have "?x div 1048576 * 1048576 \<le> ?x"
    by (rule div_times_less_eq_dividend)
  moreover have "?x < 1048576 + ?x div 1048576 * 1048576"
    by (rule dividend_less_div_times) simp
  ultimately show ?thesis
    unfolding hundredthsOfMiB_def by (simp add: algebra_simps)
qed

lemma showNat_20: "showNat (MAX_FILE_SIZE div 1024 div 1024) = u16 ''20''"
  by (simp add: MAX_FILE_SIZE_def showNat.simps digit_def u16_def)

lemma validate_Inr_iff:
  "validate fd = Inr (file, walletAddress) \<longleftrightarrow>
     form_file fd = Some file \<and> form_walletAddress fd = Some walletAddress
     \<and> walletAddress \<noteq> [] \<and> file_type file \<in> set ALLOWED_FILE_TYPES
     \<and> file_size file \<le> MAX_FILE_SIZE"
  by (auto simp: validate_def split: option.splits if_splits)

lemma validate_accepts:
  assumes "form_file fd = Some file" and "form_walletAddress fd = Some walletAddress"
    and "walletAddress \<noteq> []" and "file_type file \<in> set ALLOWED_FILE_TYPES"
    and "file_size file \<le> MAX_FILE_SIZE"
  shows "validate fd = Inr (file, walletAddress)"
  using assms by (simp add: validate_def)

lemma validate_too_large:
  assumes "form_file fd = Some file" and "form_walletAddress fd = Some walletAddress"
    and "walletAddress \<noteq> []" and "file_type file \<in> set ALLOWED_FILE_TYPES"
    and "MAX_FILE_SIZE < file_size file"
  shows "validate fd = Inl (fileTooLarge (file_size file))"
  using assms by (simp add: validate_def)

lemma POST_rejected:
  assumes "dbConnect sv = None" and "request_formData sv = Some fd"
    and "validate fd = Inl r"
  shows "POST rt sv w = (Some r, issue DbConnect w)"
  using assms by (simp add: POST_def POST_try_def)

lemma tooLargeDetails_shape:
  "tooLargeDetails b
     = u16 ''Maksimum dosya boyutu: 20MB. Y'' @ [0x00FC] @ u16 ''klenen dosya: '' @
       showNat (hundredthsOfMiB b div 100) @ u16 ''.'' @
       [digit (hundredthsOfMiB b mod 100 div 10), digit (hundredthsOfMiB b mod 10)] @
       u16 ''MB''"
  by (simp add: tooLargeDetails_def showNat_20 mib_toFixed2_def fixed2_def u16_def)

lemma checkHealthDocument_negative:
  assumes "generateContent sv HEALTH_DOCUMENT_CHECK_PROMPT (inlineData file) = Inr checkText"
    and "getProperty (parseHealthCheck rt checkText) (u16 ''isHealthDocument'') = Some v"
    and "\<not> truthy v"
  shows "checkHealthDocument rt sv file walletAddress w
       = (case renderNotHealthDetails rt (parseHealthCheck rt checkText) of
            None \<Rightarrow> Thrown (newError (toPrimitiveMessage rt))
          | Some d \<Rightarrow> Returned (notHealthDocument d),
          issue (GenerateContent HEALTH_DOCUMENT_CHECK_PROMPT (inlineData file)) w)"
  using assms by (simp add: checkHealthDocument_def split: option.split)

lemma substitute_object:
  "substitute rt (JObject verdict) key
     = (case map_of verdict key of
          None \<Rightarrow> Some (u16 ''undefined'')
        | Some v \<Rightarrow> toString (Number_toString rt) v)"
  by (simp add: substitute_def split: option.split)

lemma tooLargeError_distinct:
  "fst apiKeyError \<noteq> tooLargeError"
  "fst quotaError \<noteq> tooLargeError"
  "fst invalidFileError \<noteq> tooLargeError"
  "genericError \<noteq> tooLargeError"
  "u16 ''This document is not health-related'' \<noteq> tooLargeError"
  "u16 ''Failed to parse AI analysis'' \<noteq> tooLargeError"
  "u16 ''Desteklenmeyen dosya tipi: '' @ t \<noteq> tooLargeError"
  by (simp_all add: apiKeyError_def quotaError_def invalidFileError_def genericError_def
      tooLargeError_def u16_def)

lemma genericFailure_not_tooLarge:
  "genericFailure m = Some r \<Longrightarrow> body r \<noteq> Failure tooLargeError d"
  by (auto simp: genericFailure_def withDetails_def failure500_def tooLargeError_distinct
      split: js_message.splits option.splits json.splits)

lemma catchAll_not_tooLarge:
  "catchAll thrown = Some r \<Longrightarrow> body r \<noteq> Failure tooLargeError d"
  by (auto simp: catchAll_def failure500_def tooLargeError_distinct
      dest: genericFailure_not_tooLarge
      split: js_thrown.splits option.splits if_splits)

lemma finish_not_tooLarge:
  assumes "\<And>r. fst x = Returned r \<Longrightarrow> body r \<noteq> Failure tooLargeError d"
    and "fst (finish x) = Some r"
  shows "body r \<noteq> Failure tooLargeError d"
proof (cases x rule: finish.cases)
  case (1 r' w)
  with assms show ?thesis by simp
next
  case (2 thrown w)
  with assms(2) show ?thesis by (simp add: catchAll_not_tooLarge)
qed

lemma checkHealthDocument_not_tooLarge:
  "fst (checkHealthDocument rt sv file walletAddress w) = Returned r
     \<Longrightarrow> body r \<noteq> Failure tooLargeError d"
  by (auto simp: checkHealthDocument_def analyzeDocument_def saveAndReward_def Let_def
      notHealthDocument_def parseFailure_def successResponse_def tooLargeError_distinct
      split: sum.splits option.splits if_splits)

lemma validate_not_tooLarge:
  assumes "form_file fd = Some file" and "file_size file \<le> MAX_FILE_SIZE"
    and "validate fd = Inl r"
  shows "body r \<noteq> Failure tooLargeError d"
  using assms
  by (auto simp: validate_def missingWallet_def unsupportedType_def tooLargeError_distinct
      tooLargeError_def u16_def split: option.splits if_splits)

lemma substitute_converts:
  "map_of verdict key = None
     \<Longrightarrow> substitute rt (JObject verdict) key = Some (u16 ''undefined'')"
  "map_of verdict key = Some JNull
     \<Longrightarrow> substitute rt (JObject verdict) key = Some (u16 ''null'')"
  "map_of verdict key = Some (JBool b)
     \<Longrightarrow> substitute rt (JObject verdict) key
         = Some (if b then u16 ''true'' else u16 ''false'')"
  "map_of verdict key = Some (JNumber x)
     \<Longrightarrow> substitute rt (JObject verdict) key = Some (Number_toString rt x)"
  "map_of verdict key = Some (JString s)
     \<Longrightarrow> substitute rt (JObject verdict) key = Some s"
  by (simp_all add: substitute_object)

lemma POST_try_throws:
  "dbConnect sv = Some e \<Longrightarrow> fst (POST_try rt sv w) = Thrown e"
  by (simp add: POST_try_def)

section \<open>The example requests, evaluated\<close>

lemmas example_texts =
  healthyReply_def rejectingReply_def oddReply_def quote_def u16_def

lemmas clean_defs = cleanText_def trim_def isWhiteSpace_def skip_newline_def LF_def

lemma example_validate:
  "bytes \<le> 20971520 \<Longrightarrow>
   validate \<lparr>form_file = Some (exampleFile bytes), form_walletAddress = Some exampleWallet\<rparr>
     = Inr (exampleFile bytes, exampleWallet)"
  by (simp add: validate_def exampleFile_def exampleWallet_def ALLOWED_FILE_TYPES_def
      MAX_FILE_SIZE_def u16_def)

lemma example_services [simp]:
  "dbConnect (exampleServices db bytes c a r) = db"
  "request_formData (exampleServices db bytes c a r)
     = Some \<lparr>form_file = Some (exampleFile bytes), form_walletAddress = Some exampleWallet\<rparr>"
  "generateContent (exampleServices db bytes c a r) HEALTH_DOCUMENT_CHECK_PROMPT d = Inr c"
  "generateContent (exampleServices db bytes c a r) JSON_ANALYSIS_PROMPT d = Inr a"
  "HealthAnalysis_create (exampleServices db bytes c a r) doc = None"
  "rewardUserForAnalysis (exampleServices db bytes c a r) wa = r"
  by (simp_all add: exampleServices_def)

lemma clean_healthyReply: "cleanText healthyReply = healthyReply"
  by (simp add: clean_defs example_texts)

lemma clean_rejectingReply: "cleanText rejectingReply = rejectingReply"
  by (simp add: clean_defs example_texts)

lemma clean_oddReply: "cleanText oddReply = oddReply"
  by (simp add: clean_defs example_texts)


lemma parse_healthyReply:
  "JSON_parse exampleRuntime (cleanText healthyReply) = Some healthyVerdict"
  by (simp add: clean_healthyReply exampleRuntime_def)

lemma parse_rejectingReply:
  "JSON_parse exampleRuntime (cleanText rejectingReply) = Some (JObject rejectingVerdict)"
  unfolding clean_rejectingReply by (simp add: exampleRuntime_def example_texts)

lemma parse_oddReply:
  "JSON_parse exampleRuntime (cleanText oddReply) = Some (JObject oddVerdict)"
  unfolding clean_oddReply by (simp add: exampleRuntime_def example_texts)


lemma parse_not_sure:
  "JSON_parse exampleRuntime (cleanText (u16 ''I am not sure'')) = None"
  by (simp add: exampleRuntime_def clean_defs example_texts)

lemma exampleRuntime_rejects:
  "hd s \<noteq> 0x7B \<Longrightarrow> JSON_parse exampleRuntime s = None"
  by (auto simp: exampleRuntime_def example_texts)

lemma parse_long_reply:
  "JSON_parse exampleRuntime (cleanText (replicate 600 0x78)) = None"
  by (simp add: cleanText_replicate_x exampleRuntime_rejects hd_replicate)

lemma healthy_flag:
  "getProperty (parseHealthCheck exampleRuntime healthyReply) (u16 ''isHealthDocument'')
     = Some (Value (JBool True))"
  by (simp add: parseHealthCheck_def parse_healthyReply healthyVerdict_def)

lemma parse_healthyReply_clean:
  "JSON_parse exampleRuntime healthyReply = Some healthyVerdict"
  by (simp add: exampleRuntime_def)

lemma example_form:
  "form_file \<lparr>form_file = Some (exampleFile bytes), form_walletAddress = Some exampleWallet\<rparr>
     = Some (exampleFile bytes)"
  "form_walletAddress
     \<lparr>form_file = Some (exampleFile bytes), form_walletAddress = Some exampleWallet\<rparr>
     = Some exampleWallet"
  "exampleWallet \<noteq> []"
  "file_type (exampleFile bytes) \<in> set ALLOWED_FILE_TYPES"
  "file_size (exampleFile bytes) = bytes"
  by (simp_all add: exampleFile_def exampleWallet_def ALLOWED_FILE_TYPES_def u16_def)

section \<open>The claims\<close>

subsection \<open>C1: an unparsable classifier reply\<close>

text \<open>
  C1. For every request that reaches the classifier and every raw classifier reply that
  is not valid JSON after fence stripping, the request does not fail there: the verdict
  becomes the default
  \<open>{isHealthDocument: true, confidence: 50, documentType: "Unknown",
  reason: "Could not verify document type"}\<close>, and the handler goes on with the extraction
  stage, whose model call follows the classifier's.
\<close>

theorem unparsable_verdict_defaults:
  assumes "dbConnect sv = None" and "request_formData sv = Some fd"
    and "validate fd = Inr (file, walletAddress)"
    and "generateContent sv HEALTH_DOCUMENT_CHECK_PROMPT (inlineData file) = Inr checkText"
    and "JSON_parse rt (cleanText checkText) = None"
  shows "parseHealthCheck rt checkText
           = JObject
               [(u16 ''isHealthDocument'', JBool True),
                (u16 ''confidence'', JNumber fifty),
                (u16 ''documentType'', JString (u16 ''Unknown'')),
                (u16 ''reason'', JString (u16 ''Could not verify document type''))]
       \<and> POST rt sv w
           = finish (analyzeDocument rt sv file walletAddress
               (issue (GenerateContent HEALTH_DOCUMENT_CHECK_PROMPT (inlineData file))
                  (issue DbConnect w)))
       \<and> (\<exists>rest. calls (snd (POST rt sv w))
             = calls w @ [DbConnect,
                  GenerateContent HEALTH_DOCUMENT_CHECK_PROMPT (inlineData file),
                  GenerateContent JSON_ANALYSIS_PROMPT (inlineData file)] @ rest)"
proof -
  have d: "parseHealthCheck rt checkText = defaultHealthCheck"
    using assms(5) by (simp add: parseHealthCheck_def)
  have g: "getProperty defaultHealthCheck (u16 ''isHealthDocument'') = Some (Value (JBool True))"
    by (simp add: defaultHealthCheck_def u16_def)
  have p: "POST rt sv w
           = finish (analyzeDocument rt sv file walletAddress
               (issue (GenerateContent HEALTH_DOCUMENT_CHECK_PROMPT (inlineData file))
                  (issue DbConnect w)))"
    using POST_validated [OF assms(1-3)] checkHealthDocument_positive [OF assms(4)] d g
    by simp
  from analyzeDocument_calls [of rt sv "file" walletAddress
      "issue (GenerateContent HEALTH_DOCUMENT_CHECK_PROMPT (inlineData file))
         (issue DbConnect w)"]
  have "\<exists>rest. calls (snd (POST rt sv w))
             = calls w @ [DbConnect,
                  GenerateContent HEALTH_DOCUMENT_CHECK_PROMPT (inlineData file),
                  GenerateContent JSON_ANALYSIS_PROMPT (inlineData file)] @ rest"
    unfolding p by simp
  with d p show ?thesis by (simp add: defaultHealthCheck_def)
qed

theorem unparsable_verdict_defaults_witness:
  "JSON_parse exampleRuntime (cleanText (u16 ''I am not sure'')) = None
   \<and> parseHealthCheck exampleRuntime (u16 ''I am not sure'')
       = JObject
           [(u16 ''isHealthDocument'', JBool True),
            (u16 ''confidence'', JNumber fifty),
            (u16 ''documentType'', JString (u16 ''Unknown'')),
            (u16 ''reason'', JString (u16 ''Could not verify document type''))]
   \<and> (\<exists>rest. calls (snd (POST exampleRuntime
          (exampleServices None 1024 (u16 ''I am not sure'') (u16 ''{}'') (Inr exampleReward))
          emptyWorld))
        = calls emptyWorld @ [DbConnect,
            GenerateContent HEALTH_DOCUMENT_CHECK_PROMPT (inlineData (exampleFile 1024)),
            GenerateContent JSON_ANALYSIS_PROMPT (inlineData (exampleFile 1024))] @ rest)"
proof -
  let ?sv = "exampleServices None 1024 (u16 ''I am not sure'') (u16 ''{}'') (Inr exampleReward)"
  have h1: "dbConnect ?sv = None" by simp
  have h2: "request_formData ?sv
      = Some \<lparr>form_file = Some (exampleFile 1024), form_walletAddress = Some exampleWallet\<rparr>"
    by simp
  have h3: "validate \<lparr>form_file = Some (exampleFile 1024), form_walletAddress = Some exampleWallet\<rparr>
      = Inr (exampleFile 1024, exampleWallet)"
    by (simp add: example_validate)
  have h4: "generateContent ?sv HEALTH_DOCUMENT_CHECK_PROMPT (inlineData (exampleFile 1024))
      = Inr (u16 ''I am not sure'')"
    by simp
  from unparsable_verdict_defaults [OF h1 h2 h3 h4 parse_not_sure, of emptyWorld] parse_not_sure
  show ?thesis by blast
qed

subsection \<open>C2: a negative verdict\<close>

text \<open>
  C2, as amended. For every request whose classifier reply parses to an object with
  \<open>isHealthDocument\<close> equal to \<open>false\<close>, the extraction call to the model is never made
  and nothing is stored. Whenever the conversions to a string of the verdict's
  \<open>documentType\<close>, \<open>confidence\<close> and \<open>reason\<close> succeed, the response is the 400 failure
  whose details embed the three of them in the fixed template; when a conversion throws,
  the response is the catch-all 500 failure for that error.
\<close>

theorem rejection_skips_extraction:
  assumes "dbConnect sv = None" and "request_formData sv = Some fd"
    and "validate fd = Inr (file, walletAddress)"
    and "generateContent sv HEALTH_DOCUMENT_CHECK_PROMPT (inlineData file) = Inr checkText"
    and "JSON_parse rt (cleanText checkText) = Some (JObject verdict)"
    and "map_of verdict (u16 ''isHealthDocument'') = Some (JBool False)"
  shows "calls (snd (POST rt sv w))
           = calls w @ [DbConnect,
               GenerateContent HEALTH_DOCUMENT_CHECK_PROMPT (inlineData file)]
       \<and> stored (snd (POST rt sv w)) = stored w
       \<and> (\<forall>documentType confidence reason.
             substitute rt (JObject verdict) (u16 ''documentType'') = Some documentType
             \<and> substitute rt (JObject verdict) (u16 ''confidence'') = Some confidence
             \<and> substitute rt (JObject verdict) (u16 ''reason'') = Some reason
             \<longrightarrow> fst (POST rt sv w)
                 = Some \<lparr>status = 400,
                    body = Failure (u16 ''This document is not health-related'')
                      (Some (u16 ''Document Analysis:'' @ [LF, LF] @
                             u16 ''Type: '' @ documentType @ [LF] @
                             u16 ''Confidence: '' @ confidence @ u16 ''%'' @ [LF, LF] @
                             u16 ''Reason: '' @ reason @ catalog))\<rparr>)
       \<and> (renderNotHealthDetails rt (JObject verdict) = None
             \<longrightarrow> fst (POST rt sv w) = catchAll (newError (toPrimitiveMessage rt))
               \<and> (\<exists>r. fst (POST rt sv w) = Some r \<and> status r = 500
                      \<and> (\<exists>m d. body r = Failure m d)))"
proof -
  let ?w1 = "issue (GenerateContent HEALTH_DOCUMENT_CHECK_PROMPT (inlineData file))
               (issue DbConnect w)"
  have hc: "parseHealthCheck rt checkText = JObject verdict"
    using assms(5) by (simp add: parseHealthCheck_def)
  have g: "getProperty (parseHealthCheck rt checkText) (u16 ''isHealthDocument'')
         = Some (Value (JBool False))"
    using assms(6) by (simp add: hc)
  have c: "checkHealthDocument rt sv file walletAddress (issue DbConnect w)
       = (case renderNotHealthDetails rt (JObject verdict) of
            None \<Rightarrow> Thrown (newError (toPrimitiveMessage rt))
          | Some d \<Rightarrow> Returned (notHealthDocument d), ?w1)"
    using checkHealthDocument_negative [OF assms(4) g, of walletAddress "issue DbConnect w"]
    by (simp add: hc)
  have p: "POST rt sv w
       = finish (case renderNotHealthDetails rt (JObject verdict) of
            None \<Rightarrow> Thrown (newError (toPrimitiveMessage rt))
          | Some d \<Rightarrow> Returned (notHealthDocument d), ?w1)"
    using POST_validated [OF assms(1-3), of rt w] c by simp
  have "snd (POST rt sv w) = ?w1" unfolding p by simp
  then have tr: "calls (snd (POST rt sv w))
           = calls w @ [DbConnect,
               GenerateContent HEALTH_DOCUMENT_CHECK_PROMPT (inlineData file)]"
    and st: "stored (snd (POST rt sv w)) = stored w"
    by simp_all
  have ok: "fst (POST rt sv w)
                 = Some \<lparr>status = 400,
                    body = Failure (u16 ''This document is not health-related'')
                      (Some (u16 ''Document Analysis:'' @ [LF, LF] @
                             u16 ''Type: '' @ documentType @ [LF] @
                             u16 ''Confidence: '' @ confidence @ u16 ''%'' @ [LF, LF] @
                             u16 ''Reason: '' @ reason @ catalog))\<rparr>"
    if "substitute rt (JObject verdict) (u16 ''documentType'') = Some documentType"
      and "substitute rt (JObject verdict) (u16 ''confidence'') = Some confidence"
      and "substitute rt (JObject verdict) (u16 ''reason'') = Some reason"
    for documentType confidence reason
  proof -
    from that have "renderNotHealthDetails rt (JObject verdict)
        = Some (notHealthDetails documentType confidence reason)"
      by (simp add: renderNotHealthDetails_def)
    then have "fst (POST rt sv w)
        = Some (notHealthDocument (notHealthDetails documentType confidence reason))"
      unfolding p by simp
    then show ?thesis
      by (simp add: notHealthDocument_def notHealthDetails_def LF_def)
  qed
  have bad: "fst (POST rt sv w) = catchAll (newError (toPrimitiveMessage rt))
               \<and> (\<exists>r. fst (POST rt sv w) = Some r \<and> status r = 500
                      \<and> (\<exists>m d. body r = Failure m d))"
    if "renderNotHealthDetails rt (JObject verdict) = None"
    using that body_errorByRules [of "Some (toPrimitiveMessage rt)"] unfolding p
    by (simp add: catchAll_newError status_errorByRules)
  from tr st ok bad show ?thesis by blast
qed

theorem rejection_skips_extraction_witness:
  "JSON_parse exampleRuntime (cleanText rejectingReply) = Some (JObject rejectingVerdict)
   \<and> map_of rejectingVerdict (u16 ''isHealthDocument'') = Some (JBool False)
   \<and> calls (snd (POST exampleRuntime
        (exampleServices None 1024 rejectingReply (u16 ''{}'') (Inr exampleReward)) emptyWorld))
       = [DbConnect, GenerateContent HEALTH_DOCUMENT_CHECK_PROMPT (inlineData (exampleFile 1024))]
   \<and> fst (POST exampleRuntime
        (exampleServices None 1024 rejectingReply (u16 ''{}'') (Inr exampleReward)) emptyWorld)
       = Some \<lparr>status = 400,
          body = Failure (u16 ''This document is not health-related'')
            (Some (u16 ''Document Analysis:'' @ [LF, LF] @
                   u16 ''Type: Invoice'' @ [LF] @
                   u16 ''Confidence: 50%'' @ [LF, LF] @
                   u16 ''Reason: No'' @ catalog))\<rparr>"
proof -
  let ?sv = "exampleServices None 1024 rejectingReply (u16 ''{}'') (Inr exampleReward)"
  have h1: "dbConnect ?sv = None" by simp
  have h2: "request_formData ?sv
      = Some \<lparr>form_file = Some (exampleFile 1024), form_walletAddress = Some exampleWallet\<rparr>"
    by simp
  have h3: "validate \<lparr>form_file = Some (exampleFile 1024), form_walletAddress = Some exampleWallet\<rparr>
      = Inr (exampleFile 1024, exampleWallet)"
    by (simp add: example_validate)
  have h4: "generateContent ?sv HEALTH_DOCUMENT_CHECK_PROMPT (inlineData (exampleFile 1024))
      = Inr rejectingReply"
    by simp
  have h6: "map_of rejectingVerdict (u16 ''isHealthDocument'') = Some (JBool False)"
    by (simp add: rejectingVerdict_def u16_def)
  have s1: "substitute exampleRuntime (JObject rejectingVerdict) (u16 ''documentType'')
      = Some (u16 ''Invoice'')"
    by (simp add: substitute_object rejectingVerdict_def u16_def)
  have s2: "substitute exampleRuntime (JObject rejectingVerdict) (u16 ''confidence'')
      = Some (u16 ''50'')"
    by (simp add: substitute_object rejectingVerdict_def exampleRuntime_def u16_def)
  have s3: "substitute exampleRuntime (JObject rejectingVerdict) (u16 ''reason'')
      = Some (u16 ''No'')"
    by (simp add: substitute_object rejectingVerdict_def u16_def)
  from rejection_skips_extraction [OF h1 h2 h3 h4 parse_rejectingReply h6, of emptyWorld] s1 s2 s3
  have "calls (snd (POST exampleRuntime ?sv emptyWorld))
       = calls emptyWorld @ [DbConnect,
           GenerateContent HEALTH_DOCUMENT_CHECK_PROMPT (inlineData (exampleFile 1024))]"
    and "fst (POST exampleRuntime ?sv emptyWorld)
       = Some \<lparr>status = 400,
          body = Failure (u16 ''This document is not health-related'')
            (Some (u16 ''Document Analysis:'' @ [LF, LF] @
                   u16 ''Type: '' @ u16 ''Invoice'' @ [LF] @
                   u16 ''Confidence: '' @ u16 ''50'' @ u16 ''%'' @ [LF, LF] @
                   u16 ''Reason: '' @ u16 ''No'' @ catalog))\<rparr>"
    by blast+
  with parse_rejectingReply h6 show ?thesis
    by (simp add: emptyWorld_def u16_def)
qed

text \<open>
  The claim without the proviso fails: the reply
  \<^verbatim>\<open>{"isHealthDocument":false,"reason":{"toString":null}}\<close> parses to an object with
  \<open>isHealthDocument\<close> equal to \<open>false\<close>, the template cannot convert its \<open>reason\<close>, and the
  endpoint answers 500.
\<close>

theorem rejection_unconvertible_counterexample:
  "JSON_parse exampleRuntime (cleanText oddReply) = Some (JObject oddVerdict)
   \<and> map_of oddVerdict (u16 ''isHealthDocument'') = Some (JBool False)
   \<and> fst (POST exampleRuntime
        (exampleServices None 1024 oddReply (u16 ''{}'') (Inr exampleReward)) emptyWorld)
       = Some \<lparr>status = 500,
          body = Failure genericError
            (Some (u16 ''Cannot convert object to primitive value''))\<rparr>"
proof -
  let ?sv = "exampleServices None 1024 oddReply (u16 ''{}'') (Inr exampleReward)"
  have h6: "map_of oddVerdict (u16 ''isHealthDocument'') = Some (JBool False)"
    by (simp add: oddVerdict_def u16_def)
  have hc: "parseHealthCheck exampleRuntime oddReply = JObject oddVerdict"
    by (simp add: parseHealthCheck_def parse_oddReply)
  have r: "renderNotHealthDetails exampleRuntime (JObject oddVerdict) = None"
    by (simp add: renderNotHealthDetails_def substitute_object oddVerdict_def u16_def)
  have c: "catchAll (newError (toPrimitiveMessage exampleRuntime))
      = Some \<lparr>status = 500,
          body = Failure genericError
            (Some (u16 ''Cannot convert object to primitive value''))\<rparr>"
    by (simp add: catchAll_def newError_def withMessage_def condition_def
        exampleRuntime_def messageIncludes_def genericFailure_def failure500_def u16_def)
  have "fst (POST exampleRuntime ?sv emptyWorld)
      = catchAll (newError (toPrimitiveMessage exampleRuntime))"
    by (simp add: POST_def POST_try_def example_validate checkHealthDocument_def hc h6 r)
  with parse_oddReply h6 c show ?thesis by simp
qed

subsection \<open>C3: an unparsable extractor reply\<close>

text \<open>
  C3. For every request that reaches the extractor and every raw extractor reply that is
  not valid JSON after fence stripping, the response is the 500 failure
  \<open>Failed to parse AI analysis\<close>, with no default substituted and nothing stored; its
  details are a fixed sentence, then the first 500 code units of the raw reply (all of
  it when it is shorter), then the ellipsis \<open>...\<close>.
\<close>

theorem unparsable_analysis_fails:
  assumes "dbConnect sv = None" and "request_formData sv = Some fd"
    and "validate fd = Inr (file, walletAddress)"
    and "generateContent sv HEALTH_DOCUMENT_CHECK_PROMPT (inlineData file) = Inr checkText"
    and "getProperty (parseHealthCheck rt checkText) (u16 ''isHealthDocument'') = Some v"
    and "truthy v"
    and "generateContent sv JSON_ANALYSIS_PROMPT (inlineData file) = Inr analysisText"
    and "JSON_parse rt (cleanText analysisText) = None"
  shows "fst (POST rt sv w)
           = Some \<lparr>status = 500,
              body = Failure (u16 ''Failed to parse AI analysis'')
                (Some (u16 ''The AI returned an invalid response format. Raw response: '' @
                       take 500 analysisText @ u16 ''...''))\<rparr>
       \<and> length (take 500 analysisText) \<le> 500
       \<and> prefix (take 500 analysisText) analysisText
       \<and> stored (snd (POST rt sv w)) = stored w
       \<and> calls (snd (POST rt sv w))
           = calls w @ [DbConnect,
               GenerateContent HEALTH_DOCUMENT_CHECK_PROMPT (inlineData file),
               GenerateContent JSON_ANALYSIS_PROMPT (inlineData file)]"
proof -
  have "POST rt sv w
      = finish (analyzeDocument rt sv file walletAddress
          (issue (GenerateContent HEALTH_DOCUMENT_CHECK_PROMPT (inlineData file))
             (issue DbConnect w)))"
    using POST_validated [OF assms(1-3)] checkHealthDocument_positive [OF assms(4-6)]
    by simp
  then have "POST rt sv w
      = (Some (parseFailure analysisText),
         issue (GenerateContent JSON_ANALYSIS_PROMPT (inlineData file))
           (issue (GenerateContent HEALTH_DOCUMENT_CHECK_PROMPT (inlineData file))
              (issue DbConnect w)))"
    using assms(7,8) by (simp add: analyzeDocument_def)
  then show ?thesis
    by (simp add: parseFailure_def substring0_def take_is_prefix)
qed

theorem unparsable_analysis_fails_witness:
  "JSON_parse exampleRuntime (cleanText (replicate 600 0x78)) = None
   \<and> POST exampleRuntime
        (exampleServices None 1024 healthyReply (replicate 600 0x78) (Inr exampleReward))
        emptyWorld
       = (Some \<lparr>status = 500,
           body = Failure (u16 ''Failed to parse AI analysis'')
             (Some (u16 ''The AI returned an invalid response format. Raw response: '' @
                    replicate 500 0x78 @ u16 ''...''))\<rparr>,
          \<lparr>calls = [DbConnect,
             GenerateContent HEALTH_DOCUMENT_CHECK_PROMPT (inlineData (exampleFile 1024)),
             GenerateContent JSON_ANALYSIS_PROMPT (inlineData (exampleFile 1024))],
           stored = []\<rparr>)"
proof -
  let ?sv = "exampleServices None 1024 healthyReply (replicate 600 0x78) (Inr exampleReward)"
  have h1: "dbConnect ?sv = None" by simp
  have h2: "request_formData ?sv
      = Some \<lparr>form_file = Some (exampleFile 1024), form_walletAddress = Some exampleWallet\<rparr>"
    by simp
  have h3: "validate \<lparr>form_file = Some (exampleFile 1024), form_walletAddress = Some exampleWallet\<rparr>
      = Inr (exampleFile 1024, exampleWallet)"
    by (simp add: example_validate)
  have h4: "generateContent ?sv HEALTH_DOCUMENT_CHECK_PROMPT (inlineData (exampleFile 1024))
      = Inr healthyReply"
    by simp
  have h6: "truthy (Value (JBool True))" by simp
  have h7: "generateContent ?sv JSON_ANALYSIS_PROMPT (inlineData (exampleFile 1024))
      = Inr (replicate 600 0x78)"
    by simp
  have t: "take 500 (replicate 600 (0x78 :: 16 word)) = replicate 500 0x78"
    by simp
  from unparsable_analysis_fails [OF h1 h2 h3 h4 healthy_flag h6 h7 parse_long_reply,
      of emptyWorld]
  have "fst (POST exampleRuntime ?sv emptyWorld)
           = Some \<lparr>status = 500,
              body = Failure (u16 ''Failed to parse AI analysis'')
                (Some (u16 ''The AI returned an invalid response format. Raw response: '' @
                       replicate 500 0x78 @ u16 ''...''))\<rparr>"
    and "stored (snd (POST exampleRuntime ?sv emptyWorld)) = []"
    and "calls (snd (POST exampleRuntime ?sv emptyWorld))
           = [DbConnect,
               GenerateContent HEALTH_DOCUMENT_CHECK_PROMPT (inlineData (exampleFile 1024)),
               GenerateContent JSON_ANALYSIS_PROMPT (inlineData (exampleFile 1024))]"
    unfolding t by (simp_all add: emptyWorld_def)
  then have "POST exampleRuntime ?sv emptyWorld
       = (Some \<lparr>status = 500,
           body = Failure (u16 ''Failed to parse AI analysis'')
             (Some (u16 ''The AI returned an invalid response format. Raw response: '' @
                    replicate 500 0x78 @ u16 ''...''))\<rparr>,
          \<lparr>calls = [DbConnect,
             GenerateContent HEALTH_DOCUMENT_CHECK_PROMPT (inlineData (exampleFile 1024)),
             GenerateContent JSON_ANALYSIS_PROMPT (inlineData (exampleFile 1024))],
           stored = []\<rparr>)"
    by (cases "POST exampleRuntime ?sv emptyWorld") simp
  with parse_long_reply show ?thesis by simp
qed

subsection \<open>C4: an oversized file\<close>

text \<open>
  C4, as amended. For every request for which the database connection succeeds, with a
  file and a wallet address present and an allow-listed MIME type, if the file's size
  exceeds 20 MiB (\<open>20 * 1024 * 1024\<close> bytes) the response is a 400 failure whose details
  report the ceiling as \<open>20MB\<close> and the uploaded size in MiB to two decimal places: the
  number of hundredths \<open>n\<close> printed is the nearest to \<open>size / 2^20\<close>, the larger one on
  a tie.
\<close>

theorem oversized_file_rejected:
  assumes "dbConnect sv = None" and "request_formData sv = Some fd"
    and "form_file fd = Some file" and "form_walletAddress fd = Some walletAddress"
    and "walletAddress \<noteq> []" and "file_type file \<in> set ALLOWED_FILE_TYPES"
    and "20 * 1024 * 1024 < file_size file"
  shows "\<exists>n. fst (POST rt sv w)
           = Some \<lparr>status = 400,
              body = Failure tooLargeError
                (Some (u16 ''Maksimum dosya boyutu: 20MB. Y'' @ [0x00FC] @
                       u16 ''klenen dosya: '' @
                       showNat (n div 100) @ u16 ''.'' @
                       [digit (n mod 100 div 10), digit (n mod 10)] @ u16 ''MB''))\<rparr>
         \<and> n * 1048576 \<le> 100 * file_size file + 524288
         \<and> 100 * file_size file + 524288 < (n + 1) * 1048576
         \<and> readNat (showNat (n div 100)) = n div 100"
proof -
  have "MAX_FILE_SIZE < file_size file" using assms(7) by (simp add: MAX_FILE_SIZE_def)
  with assms have "validate fd = Inl (fileTooLarge (file_size file))"
    by (intro validate_too_large)
  with assms(1,2) have "fst (POST rt sv w) = Some (fileTooLarge (file_size file))"
    by (simp add: POST_rejected)
  then have "fst (POST rt sv w)
           = Some \<lparr>status = 400,
              body = Failure tooLargeError
                (Some (u16 ''Maksimum dosya boyutu: 20MB. Y'' @ [0x00FC] @
                       u16 ''klenen dosya: '' @
                       showNat (hundredthsOfMiB (file_size file) div 100) @ u16 ''.'' @
                       [digit (hundredthsOfMiB (file_size file) mod 100 div 10),
                        digit (hundredthsOfMiB (file_size file) mod 10)] @ u16 ''MB''))\<rparr>"
    by (simp only: fileTooLarge_def tooLargeDetails_shape)
  with hundredths_nearest [of "file_size file"] readNat_showNat
  show ?thesis by blast
qed

theorem oversized_file_rejected_witness:
  "20 * 1024 * 1024 < file_size (exampleFile 22000000)
   \<and> fst (POST exampleRuntime
        (exampleServices None 22000000 healthyReply (u16 ''{}'') (Inr exampleReward)) emptyWorld)
       = Some \<lparr>status = 400,
          body = Failure tooLargeError
            (Some (u16 ''Maksimum dosya boyutu: 20MB. Y'' @ [0x00FC] @
                   u16 ''klenen dosya: 20.98MB''))\<rparr>"
proof -
  let ?sv = "exampleServices None 22000000 healthyReply (u16 ''{}'') (Inr exampleReward)"
  have h1: "dbConnect ?sv = None" by simp
  have h2: "request_formData ?sv
      = Some \<lparr>form_file = Some (exampleFile 22000000),
               form_walletAddress = Some exampleWallet\<rparr>"
    by simp
  have h7: "20 * 1024 * 1024 < file_size (exampleFile 22000000)"
    by (simp add: example_form)
  from oversized_file_rejected [OF h1 h2 example_form(1,2,3,4) h7, of exampleRuntime emptyWorld]
  obtain n where r: "fst (POST exampleRuntime ?sv emptyWorld)
           = Some \<lparr>status = 400,
              body = Failure tooLargeError
                (Some (u16 ''Maksimum dosya boyutu: 20MB. Y'' @ [0x00FC] @
                       u16 ''klenen dosya: '' @
                       showNat (n div 100) @ u16 ''.'' @
                       [digit (n mod 100 div 10), digit (n mod 10)] @ u16 ''MB''))\<rparr>"
    and lo: "n * 1048576 \<le> 100 * file_size (exampleFile 22000000) + 524288"
    and hi: "100 * file_size (exampleFile 22000000) + 524288 < (n + 1) * 1048576"
    by blast
  from lo hi have "n = 2098" by (simp add: example_form)
  with r h7 show ?thesis
    by (simp add: showNat.simps digit_def u16_def)
qed

text \<open>
  Without the proviso on the database the claim fails: the connection is attempted
  before the form is read, so when it is refused an oversized upload is answered with
  the catch-all 500 failure.
\<close>

theorem oversized_file_db_down_counterexample:
  "form_file \<lparr>form_file = Some (exampleFile 22000000),
               form_walletAddress = Some exampleWallet\<rparr> = Some (exampleFile 22000000)
   \<and> exampleWallet \<noteq> []
   \<and> file_type (exampleFile 22000000) \<in> set ALLOWED_FILE_TYPES
   \<and> 20 * 1024 * 1024 < file_size (exampleFile 22000000)
   \<and> POST exampleRuntime
        (exampleServices (Some (newError (u16 ''connect ECONNREFUSED'')))
           22000000 healthyReply (u16 ''{}'') (Inr exampleReward)) emptyWorld
       = (Some \<lparr>status = 500,
           body = Failure genericError (Some (u16 ''connect ECONNREFUSED''))\<rparr>,
          \<lparr>calls = [DbConnect], stored = []\<rparr>)"
proof -
  have "catchAll (newError (u16 ''connect ECONNREFUSED''))
      = Some \<lparr>status = 500,
          body = Failure genericError (Some (u16 ''connect ECONNREFUSED''))\<rparr>"
    by (simp add: catchAll_def newError_def withMessage_def condition_def
        messageIncludes_def genericFailure_def failure500_def u16_def)
  then show ?thesis
    by (simp add: POST_def POST_try_def example_form issue_def emptyWorld_def)
qed

subsection \<open>C5: what precedes validation\<close>

text \<open>
  C5, as amended. For every request, the first external call is the connection to the
  database, issued before the form is read; until the form has been read and all four
  validation checks have passed it is the only one: a request that does not pass them
  causes no call to the model service, no insert and no reward call, and leaves the
  store as it was.
\<close>

theorem only_connect_precedes_validation:
  "(\<exists>rest. calls (snd (POST rt sv w)) = calls w @ DbConnect # rest)
   \<and> (\<not> validationPasses sv \<longrightarrow>
        calls (snd (POST rt sv w)) = calls w @ [DbConnect]
        \<and> stored (snd (POST rt sv w)) = stored w)"
  using POST_try_calls [of rt sv w] POST_not_validated [of sv rt w]
  by (simp add: POST_def)

theorem only_connect_precedes_validation_witness:
  "\<not> validationPasses
       (exampleServices None 22000000 healthyReply (u16 ''{}'') (Inr exampleReward))
   \<and> calls (snd (POST exampleRuntime
        (exampleServices None 22000000 healthyReply (u16 ''{}'') (Inr exampleReward))
        emptyWorld)) = [DbConnect]
   \<and> stored (snd (POST exampleRuntime
        (exampleServices None 22000000 healthyReply (u16 ''{}'') (Inr exampleReward))
        emptyWorld)) = []"
proof -
  let ?sv = "exampleServices None 22000000 healthyReply (u16 ''{}'') (Inr exampleReward)"
  have "validate \<lparr>form_file = Some (exampleFile 22000000),
                   form_walletAddress = Some exampleWallet\<rparr>
      = Inl (fileTooLarge 22000000)"
    using validate_too_large [OF example_form(1,2,3,4), of 22000000]
    by (simp add: example_form MAX_FILE_SIZE_def)
  then have n: "\<not> validationPasses ?sv" by (simp add: validationPasses_def)
  with only_connect_precedes_validation [of exampleRuntime ?sv emptyWorld]
  show ?thesis by (simp add: emptyWorld_def)
qed

text \<open>
  The claim as stated, with no call to the database before the checks have passed,
  fails: a request without a file is rejected by the first check, and the database has
  been called.
\<close>

theorem connect_before_validation_counterexample:
  "\<not> validationPasses noFileServices
   \<and> POST exampleRuntime noFileServices emptyWorld
       = (Some missingFile, \<lparr>calls = [DbConnect], stored = []\<rparr>)"
  by (simp add: validationPasses_def noFileServices_def validate_def POST_def POST_try_def
      issue_def emptyWorld_def)

subsection \<open>C6: fenced replies\<close>

text \<open>
  C6. Round trip of the fence stripping: for every reply text, wrapping it in a fenced
  code block, tagged \<open>json\<close> or untagged, and then cleaning and parsing it gives the same
  outcome (the same value, or the same failure) as cleaning and parsing the bare text,
  at the classifier's parse, with its fallback, as at the extractor's.
\<close>

theorem fence_roundtrip:
  "cleanText (fenced (u16 ''json'') t) = cleanText t
   \<and> cleanText (fenced [] t) = cleanText t
   \<and> JSON_parse rt (cleanText (fenced (u16 ''json'') t)) = JSON_parse rt (cleanText t)
   \<and> JSON_parse rt (cleanText (fenced [] t)) = JSON_parse rt (cleanText t)
   \<and> parseHealthCheck rt (fenced (u16 ''json'') t) = parseHealthCheck rt t
   \<and> parseHealthCheck rt (fenced [] t) = parseHealthCheck rt t"
  by (simp add: cleanText_fenced_json cleanText_fenced_plain parseHealthCheck_def)

text \<open>
  The round trip on the reply \<^verbatim>\<open>{"isHealthDocument":true}\<close>: fenced with or
  without the \<open>json\<close> tag, it is cleaned to the bare reply and parses to the same value.
\<close>

theorem fence_roundtrip_witness:
  "cleanText (fenced (u16 ''json'') healthyReply) = healthyReply
   \<and> cleanText (fenced [] healthyReply) = healthyReply
   \<and> JSON_parse exampleRuntime (cleanText (fenced (u16 ''json'') healthyReply))
       = Some healthyVerdict
   \<and> JSON_parse exampleRuntime (cleanText (fenced [] healthyReply)) = Some healthyVerdict"
  using fence_roundtrip [of healthyReply exampleRuntime]
  by (simp add: clean_healthyReply parse_healthyReply_clean)

subsection \<open>C7: the catch-all\<close>




subsection \<open>C8: the readiness payload\<close>

text \<open>
  C8. The GET handler's payload has as \<open>supportedFileTypes\<close> exactly the allow-listed
  MIME types, in order, and as \<open>maxFileSize\<close> the string \<open>20MB\<close>.
\<close>

theorem GET_payload:
  "supportedFileTypes GET =
     [u16 ''application/pdf'', u16 ''text/csv'', u16 ''application/msword'',
      u16 ''application/vnd.openxmlformats-officedocument.wordprocessingml.document'',
      u16 ''image/png'', u16 ''image/jpeg'', u16 ''image/jpg'']
   \<and> maxFileSize GET = u16 ''20MB''"
  by (simp add: GET_def ALLOWED_FILE_TYPES_def showNat_20) (simp add: u16_def)

subsection \<open>C9: the boundary of the size check\<close>

text \<open>
  C9. The size comparison is strict: a request whose file has at most 20971520 bytes,
  exactly 20 MiB included, is never answered with the too-large failure, and when it has
  come through the earlier steps (database connected, wallet address present, MIME type
  allow-listed) it passes validation and the handler proceeds to the classifier call.
\<close>

theorem size_boundary_inclusive:
  assumes "request_formData sv = Some fd" and "form_file fd = Some file"
    and "file_size file \<le> 20971520"
  shows "(\<forall>st d. fst (POST rt sv w)
            \<noteq> Some \<lparr>status = st, body = Failure tooLargeError d\<rparr>)
       \<and> (dbConnect sv = None \<and> form_walletAddress fd = Some walletAddress
           \<and> walletAddress \<noteq> [] \<and> file_type file \<in> set ALLOWED_FILE_TYPES
          \<longrightarrow> validate fd = Inr (file, walletAddress)
            \<and> POST rt sv w
                = finish (checkHealthDocument rt sv file walletAddress (issue DbConnect w))
            \<and> (\<exists>rest. calls (snd (POST rt sv w))
                  = calls w @ [DbConnect,
                      GenerateContent HEALTH_DOCUMENT_CHECK_PROMPT (inlineData file)] @ rest))"
proof -
  have le: "file_size file \<le> MAX_FILE_SIZE" using assms(3) by (simp add: MAX_FILE_SIZE_def)
  have "fst (POST rt sv w) \<noteq> Some \<lparr>status = st, body = Failure tooLargeError d\<rparr>"
    for st d
  proof -
    have ret: "body r \<noteq> Failure tooLargeError d"
      if "fst (POST_try rt sv w) = Returned r" for r
    proof (cases "dbConnect sv")
      case (Some e)
      with that show ?thesis by (simp add: POST_try_def)
    next
      case None
      show ?thesis
      proof (cases "validate fd")
        case (Inl r')
        with None assms(1) that have "r' = r" by (simp add: POST_try_def)
        with validate_not_tooLarge [OF assms(2) le Inl] show ?thesis by simp
      next
        case (Inr ok)
        obtain f wa where "ok = (f, wa)" by (cases ok)
        with None assms(1) Inr that
        have "fst (checkHealthDocument rt sv f wa (issue DbConnect w)) = Returned r"
          by (simp add: POST_try_def)
        then show ?thesis by (rule checkHealthDocument_not_tooLarge)
      qed
    qed
    have "body r \<noteq> Failure tooLargeError d" if "fst (POST rt sv w) = Some r" for r
      using ret that unfolding POST_def by (rule finish_not_tooLarge)
    then show ?thesis by force
  qed
  moreover have "validate fd = Inr (file, walletAddress)
            \<and> POST rt sv w
                = finish (checkHealthDocument rt sv file walletAddress (issue DbConnect w))
            \<and> (\<exists>rest. calls (snd (POST rt sv w))
                  = calls w @ [DbConnect,
                      GenerateContent HEALTH_DOCUMENT_CHECK_PROMPT (inlineData file)] @ rest)"
    if h: "dbConnect sv = None" "form_walletAddress fd = Some walletAddress"
      "walletAddress \<noteq> []" "file_type file \<in> set ALLOWED_FILE_TYPES"
  proof -
    from assms(2) h(2,3,4) le have v: "validate fd = Inr (file, walletAddress)"
      by (rule validate_accepts)
    from POST_validated [OF h(1) assms(1) v]
    have p: "POST rt sv w
        = finish (checkHealthDocument rt sv file walletAddress (issue DbConnect w))" .
    from checkHealthDocument_calls [of rt sv "file" walletAddress "issue DbConnect w"]
    have "\<exists>rest. calls (snd (POST rt sv w))
               = calls w @ [DbConnect,
                   GenerateContent HEALTH_DOCUMENT_CHECK_PROMPT (inlineData file)] @ rest"
      unfolding p by simp
    with v p show ?thesis by blast
  qed
  ultimately show ?thesis by blast
qed

theorem size_boundary_inclusive_witness:
  "file_size (exampleFile 20971520) \<le> 20971520
   \<and> validate \<lparr>form_file = Some (exampleFile 20971520),
                 form_walletAddress = Some exampleWallet\<rparr>
       = Inr (exampleFile 20971520, exampleWallet)
   \<and> (\<forall>st d. fst (POST exampleRuntime
          (exampleServices None 20971520 healthyReply (u16 ''{}'') (Inr exampleReward))
          emptyWorld) \<noteq> Some \<lparr>status = st, body = Failure tooLargeError d\<rparr>)
   \<and> (\<exists>rest. calls (snd (POST exampleRuntime
          (exampleServices None 20971520 healthyReply (u16 ''{}'') (Inr exampleReward))
          emptyWorld))
        = calls emptyWorld @ [DbConnect,
            GenerateContent HEALTH_DOCUMENT_CHECK_PROMPT (inlineData (exampleFile 20971520))]
          @ rest)"
proof -
  let ?sv = "exampleServices None 20971520 healthyReply (u16 ''{}'') (Inr exampleReward)"
  have h1: "dbConnect ?sv = None" by simp
  have h2: "request_formData ?sv
      = Some \<lparr>form_file = Some (exampleFile 20971520),
               form_walletAddress = Some exampleWallet\<rparr>"
    by simp
  have h7: "file_size (exampleFile 20971520) \<le> 20971520" by (simp add: example_form)
  from size_boundary_inclusive [OF h2 example_form(1) h7, of exampleRuntime emptyWorld
      exampleWallet] h1 example_form(2,3,4) h7
  show ?thesis by blast
qed

subsection \<open>C10: a reward failure after the insert\<close>



end
